theory Spec2Isabelle
  imports Main "HOL-Library.Word"
begin

section \<open>Values shared by the tools\<close>

text \<open>
  BSON values as the Go code handles them through \<open>interface{}\<close>: the dynamic type is the
  constructor. An ordered document (\<open>bson.D\<close>) is a list of key/value elements, an unordered
  one (\<open>bson.M\<close>, a Go map) is a partial function from keys to values. A missing map key
  reads as the nil interface, here \<open>None\<close>.
\<close>

datatype bson =
    BNull
  | BBool bool
  | BInt int
  | BString string
  | BDoc "(string \<times> bson) list"
  | BArray "bson list"

type_synonym bsonD = "(string \<times> bson) list"
type_synonym bsonM = "string \<rightharpoonup> bson"
type_synonym bytes = "8 word list"

text \<open>
  Modelled from the spec: the type \<open>db.Version\<close> and its comparisons \<open>LT\<close> and \<open>GTE\<close>
  (common/db, not among the sources). The spec compares server versions such as
  \<open>4.1.9\<close>, \<open>4.2\<close> and \<open>4.0\<close> component by component: a version is a triple
  (major, minor, patch) ordered lexicographically.
\<close>

type_synonym Version = "int \<times> int \<times> int"

fun Cmp :: "Version \<Rightarrow> Version \<Rightarrow> int" where
  "Cmp (a1, b1, c1) (a2, b2, c2) =
     (if a1 < a2 then -1 else if a1 > a2 then 1
      else if b1 < b2 then -1 else if b1 > b2 then 1
      else if c1 < c2 then -1 else if c1 > c2 then 1
      else 0)"

definition LT :: "Version \<Rightarrow> Version \<Rightarrow> bool" where
  "LT v1 v2 = (Cmp v1 v2 = -1)"

definition GTE :: "Version \<Rightarrow> Version \<Rightarrow> bool" where
  "GTE v1 v2 = (Cmp v1 v2 \<noteq> -1)"

section \<open>Package db: error filtering and timeseries bucket names\<close>

text \<open>
  A Go \<open>error\<close> is an interface value. \<open>FilterError\<close> and \<open>CanIgnoreError\<close> observe three
  things of it: the text \<open>err.Error()\<close>; whether \<open>errors.As\<close> finds a \<open>mongo.ServerError\<close>
  in its chain, and then which codes \<open>HasErrorCode\<close> accepts; and whether the value itself
  is a \<open>mongo.BulkWriteException\<close>, and then the messages of its \<open>WriteErrors\<close>. The nil
  error is \<open>None\<close>.
\<close>

record go_error =
  Error :: string
  asServerError :: "(int \<Rightarrow> bool) option"
  asBulkWriteException :: "string list option"

text \<open>
  Modelled from the spec: the verbosity levels of common/log (not among the sources). The
  spec refers to log levels only by name; these are the four the code names.
\<close>

datatype log_level = Always | Info | DebugLow | DebugHigh

type_synonym log_line = "log_level \<times> string"

definition ErrDuplicateKeyCode :: int where
  "ErrDuplicateKeyCode = 11000"

definition ErrFailedDocumentValidation :: int where
  "ErrFailedDocumentValidation = 121"

definition ErrUnacknowledgedWrite :: string where
  "ErrUnacknowledgedWrite = ''unacknowledged write''"

definition ignorableWriteErrorCodes :: "int list" where
  "ignorableWriteErrorCodes = [ErrDuplicateKeyCode, ErrFailedDocumentValidation]"

definition continueThroughErrorFormat :: "string \<Rightarrow> string" where
  "continueThroughErrorFormat v = ''continuing through error: '' @ v"

definition CanIgnoreError :: "go_error option \<Rightarrow> bool" where
  "CanIgnoreError err =
     (case err of
        None \<Rightarrow> True
      | Some e \<Rightarrow>
          (case asServerError e of
             Some HasErrorCode \<Rightarrow> list_ex HasErrorCode ignorableWriteErrorCodes
           | None \<Rightarrow> False))"

text \<open>
  \<open>FilterError\<close> returns the error to propagate (or nil) together with the lines it logs.
\<close>

definition FilterError :: "bool \<Rightarrow> go_error option \<Rightarrow> go_error option \<times> log_line list" where
  "FilterError stopOnError err =
     (case err of
        None \<Rightarrow> (None, [])
      | Some e \<Rightarrow>
          if Error e = ErrUnacknowledgedWrite then (None, [])
          else if \<not> stopOnError \<and> CanIgnoreError err then
            (case asBulkWriteException e of
               Some writeErrors \<Rightarrow>
                 (None, map (\<lambda>message. (Always, continueThroughErrorFormat message)) writeErrors)
             | None \<Rightarrow> (None, [(Always, continueThroughErrorFormat (Error e))]))
          else (err, []))"

text \<open>\<open>strings.HasPrefix\<close> and \<open>strings.TrimPrefix\<close> of the Go standard library.\<close>

definition HasPrefix :: "string \<Rightarrow> string \<Rightarrow> bool" where
  "HasPrefix s pre = (length pre \<le> length s \<and> take (length pre) s = pre)"

definition TrimPrefix :: "string \<Rightarrow> string \<Rightarrow> string" where
  "TrimPrefix s pre = (if HasPrefix s pre then drop (length pre) s else s)"

datatype db_error = InvalidTimeseriesBucketName string

definition GetTimeseriesCollNameFromBucket :: "string \<Rightarrow> db_error + string" where
  "GetTimeseriesCollNameFromBucket bucketCollName =
     (let collName = TrimPrefix bucketCollName ''system.buckets.''
      in if collName = bucketCollName \<or> collName = ''''
         then Inl (InvalidTimeseriesBucketName bucketCollName)
         else Inr collName)"

section \<open>Package mongorestore: the restore object and the outside world\<close>

text \<open>
  Modelled from the spec: \<open>idx.IndexDocument\<close> (common/idx, not among the sources). The
  spec's index spec is a key/value document with a key pattern, a name and options; the code
  under verification reads and writes only the \<open>Options\<close> map (keys \<open>ns\<close>, \<open>name\<close>,
  \<open>v\<close>), which the decoder always allocates.
\<close>

record IndexDocument =
  Options :: bsonM
  Key :: bsonD

text \<open>
  Modelled from the spec: \<open>intents.Intent\<close> (common/intents, not among the sources), with
  the attributes the code reads: namespace identity, the data stream handle (named by the
  file it opens), the size hint in bytes and the location shown in log lines.
\<close>

record Intent =
  DB :: string
  C :: string
  BSONFile :: string
  Size :: int
  Location :: string

record Metadata =
  MetadataOptions :: bsonD
  Indexes :: "IndexDocument list"
  UUID :: string
  CollectionName :: string

record WriteConcern =
  W :: bson
  Journal :: "bool option"
  WTimeout :: int

record Namespace =
  NamespaceDB :: string
  NamespaceCollection :: string

record ToolOptions =
  Namespace :: Namespace
  WriteConcern :: "WriteConcern option"

record OutputOptions =
  Drop :: bool
  KeepIndexVersion :: bool
  TempUsersColl :: string
  TempRolesColl :: string

datatype mongo_Client = MongoClient

record SessionProvider =
  client :: "mongo_Client option"

record authVersionPair =
  Dump :: int
  Server :: int

record MongoRestore =
  ToolOptions :: ToolOptions
  OutputOptions :: OutputOptions
  SessionProvider :: SessionProvider
  serverVersion :: Version
  authVersions :: authVersionPair
  knownCollections :: "string \<rightharpoonup> string list"

text \<open>
  Errors of package mongorestore, one constructor per place that builds one. \<open>External\<close>
  is an error handed over by the driver or the file layer, identified by its text
  \<open>err.Error()\<close>; the constructors with an \<open>error\<close> argument are the \<open>fmt.Errorf\<close>
  wrappers around it.
\<close>

datatype error =
    External string
  | SessionProviderAlreadyClosed
  | ErrorEstablishingConnection error
  | NamespaceTooLong string
  | ExpectedNameToBeString "bson option"
  | CreateIndexError error
  | ErrorCreatingIndex "bson option" error
  | InsertError error
  | InvalidCollectionName bson
  | DifferentDatabases string string
  | ErrorDroppingPreexisting string error
  | ErrorRestoring string error
  | ErrorParsingWriteConcern error
  | ErrorRunningMergeCommand error
  | ErrorDecodingMergeResult error
  | MergeAuthzCollectionsFailed "bson option"
  | ErrorRunningCreateCommand error
  | ErrorDecodingCreateResult error
  | CreateCommandFailed "bson option"
  | DumpAuthVersionUnsupported int
  | ServerAuthVersionUnsupported int
  | CannotRestore1To5
  | CannotRestore5To3
  | CannotRestoreToServer1
  | InvalidAuthPair int int

text \<open>
  A command is an ordered document whose values are BSON values, the index documents of
  \<open>createIndexes\<close>, or an unordered document (the write concern).
\<close>

datatype cmd_value =
    V bson
  | VIndexes "IndexDocument list"
  | VM bsonM

type_synonym command = "(string \<times> cmd_value) list"

text \<open>
  Everything a function does to the outside world is appended to a trace: the operations
  sent to the server, the file operations, and the log lines.
\<close>

datatype op =
    OpRunCommand string command
  | OpInsertOne string string IndexDocument
  | OpDrop string string
  | OpListCollections string
  | OpOpen string
  | OpClose string
  | OpSourceClose string
  | OpRestoreCollectionToDB string string string
  | Logv log_level string

datatype cmd_reply =
    CommandFails string
  | ReplyUndecodable string
  | Reply bsonM

text \<open>
  The outside world answers each operation, given the trace so far. An answer \<open>Some msg\<close>
  or \<open>Inl msg\<close> is an error with text \<open>msg\<close>. \<open>restoreCollectionToDB\<close> stands for
  \<open>RestoreCollectionToDB\<close> (restore.go, not among the sources) and yields its
  \<open>result.Err\<close>; \<open>formatValue\<close> is \<open>fmt\<close>'s \<open>%v\<close> on a value that is not a string and
  \<open>IsFalsy\<close> and \<open>StringSliceContains\<close> are those of common/util (not among the
  sources), the latter applied to a slice that may be nil (\<open>None\<close>);
  \<open>MarshalBSONValue\<close>, \<open>Unmarshal\<close> and \<open>UnmarshalExtJSON\<close> are the driver's.
\<close>

record world =
  runCommand :: "op list \<Rightarrow> string \<Rightarrow> command \<Rightarrow> cmd_reply"
  insertOne :: "op list \<Rightarrow> string \<Rightarrow> string \<Rightarrow> IndexDocument \<Rightarrow> string option"
  dropCollection :: "op list \<Rightarrow> string \<Rightarrow> string \<Rightarrow> string option"
  listCollections :: "op list \<Rightarrow> string \<Rightarrow> string + bson list"
  openFile :: "op list \<Rightarrow> string \<Rightarrow> string option"
  restoreCollectionToDB :: "op list \<Rightarrow> string \<Rightarrow> string \<Rightarrow> string \<Rightarrow> string option"
  formatValue :: "bson \<Rightarrow> string"
  IsFalsy :: "bson option \<Rightarrow> bool"
  StringSliceContains :: "string list option \<Rightarrow> string \<Rightarrow> bool"
  MarshalBSONValue :: "WriteConcern \<Rightarrow> string + bytes"
  Unmarshal :: "bytes \<Rightarrow> string + bsonM"
  UnmarshalExtJSON :: "bytes \<Rightarrow> string + Metadata"

definition Err :: "cmd_reply \<Rightarrow> string option" where
  "Err r = (case r of CommandFails msg \<Rightarrow> Some msg | _ \<Rightarrow> None)"

text \<open>\<open>fmt\<close>'s \<open>%v\<close> on an interface value: a string prints as itself, nil as \<open><nil>\<close>.\<close>

definition Sprint_v :: "world \<Rightarrow> bson option \<Rightarrow> string" where
  "Sprint_v w v =
     (case v of None \<Rightarrow> ''<nil>'' | Some (BString s) \<Rightarrow> s | Some b \<Rightarrow> formatValue w b)"

fun Join :: "string list \<Rightarrow> string \<Rightarrow> string" where
  "Join [] sep = []"
| "Join [a] sep = a"
| "Join (a # b # rest) sep = a @ sep @ Join (b # rest) sep"

definition GetSession :: "SessionProvider \<Rightarrow> error + mongo_Client" where
  "GetSession sp =
     (case client sp of None \<Rightarrow> Inl SessionProviderAlreadyClosed | Some c \<Rightarrow> Inr c)"

section \<open>Package mongorestore: metadata\<close>

definition MetadataFromJSON :: "world \<Rightarrow> bytes \<Rightarrow> Metadata option \<times> error option" where
  "MetadataFromJSON w jsonBytes =
     (if length jsonBytes = 0 then (None, None)
      else case UnmarshalExtJSON w jsonBytes of
             Inl msg \<Rightarrow> (None, Some (External msg))
           | Inr meta \<Rightarrow> (Some meta, None))"

text \<open>
  \<open>ValidateAuthVersions\<close> reads only \<open>restore.authVersions\<close>; it returns the error (nil
  being \<open>None\<close>) and the lines it logs. The \<open>switch\<close> compares the pair as a whole, case by
  case in source order.
\<close>

definition ValidateAuthVersions :: "MongoRestore \<Rightarrow> error option \<times> log_line list" where
  "ValidateAuthVersions restore =
     (let av = authVersions restore in
      if Dump av = 2 \<or> Dump av = 4
        then (Some (DumpAuthVersionUnsupported (Dump av)), [])
      else if Server av = 2 \<or> Server av = 4
        then (Some (ServerAuthVersionUnsupported (Server av)), [])
      else if av = \<lparr>Dump = 3, Server = 5\<rparr> then
        (None, [(Info, ''restoring users and roles of auth version 3 to a server of auth version 5'')])
      else if av = \<lparr>Dump = 5, Server = 5\<rparr> then
        (None, [(Info, ''restoring users and roles of auth version 5 to a server of auth version 5'')])
      else if av = \<lparr>Dump = 3, Server = 3\<rparr> then
        (None, [(Info, ''restoring users and roles of auth version 3 to a server of auth version 3'')])
      else if av = \<lparr>Dump = 1, Server = 1\<rparr> then
        (None, [(Info, ''restoring users and roles of auth version 1 to a server of auth version 1'')])
      else if av = \<lparr>Dump = 1, Server = 5\<rparr> then (Some CannotRestore1To5, [])
      else if av = \<lparr>Dump = 5, Server = 3\<rparr> then (Some CannotRestore5To3, [])
      else if av = \<lparr>Dump = 1, Server = 3\<rparr> then
        (None, [(Info, ''restoring users and roles of auth version 1 to a server of auth version 3''),
                (Always, ''users and roles will have to be updated with the authSchemaUpgrade command'')])
      else if av = \<lparr>Dump = 5, Server = 1\<rparr> then (Some CannotRestoreToServer1, [])
      else if av = \<lparr>Dump = 3, Server = 1\<rparr> then (Some CannotRestoreToServer1, [])
      else (Some (InvalidAuthPair (Dump av) (Server av)), []))"

text \<open>
  \<open>UpdateAutoIndexId\<close> overwrites elements of the caller's slice in place; the model
  returns the slice after the call, and the lines logged (one for each element rewritten).
\<close>

definition autoIndexIdMessage :: string where
  "autoIndexIdMessage =
     ''{autoIndexId: false} is not allowed in server versions >= 4.0. Changing to {autoIndexId: true}.''"

fun UpdateAutoIndexId_loop :: "MongoRestore \<Rightarrow> bsonD \<Rightarrow> bsonD \<times> log_line list" where
  "UpdateAutoIndexId_loop restore [] = ([], [])"
| "UpdateAutoIndexId_loop restore (elem # rest) =
     (let (rest', logs) = UpdateAutoIndexId_loop restore rest in
      if fst elem = ''autoIndexId'' \<and> snd elem = BBool False
         \<and> NamespaceDB (Namespace (ToolOptions restore)) \<noteq> ''local''
      then ((fst elem, BBool True) # rest', (Always, autoIndexIdMessage) # logs)
      else (elem # rest', logs))"

definition UpdateAutoIndexId :: "MongoRestore \<Rightarrow> bsonD \<Rightarrow> bsonD \<times> log_line list" where
  "UpdateAutoIndexId restore options =
     (if GTE (serverVersion restore) (4, 0, 0) then UpdateAutoIndexId_loop restore options
      else (options, []))"

definition createCollectionCommand :: "Intent \<Rightarrow> bsonD \<Rightarrow> command" where
  "createCollectionCommand intent options =
     [(''create'', V (BString (C intent)))] @ map (\<lambda>elem. (fst elem, V (snd elem))) options"

text \<open>
  \<open>createCollectionWithCommand\<close> returns the error, the caller's options as
  \<open>UpdateAutoIndexId\<close> leaves them, and the trace. The \<open>create\<close> command runs on the
  database of the intent.
\<close>

definition createCollectionWithCommand ::
  "world \<Rightarrow> MongoRestore \<Rightarrow> op list \<Rightarrow> mongo_Client \<Rightarrow> Intent \<Rightarrow> bsonD
     \<Rightarrow> error option \<times> bsonD \<times> op list" where
  "createCollectionWithCommand w restore tr session intent options =
     (let (options1, logs) = UpdateAutoIndexId restore options;
          tr1 = tr @ map (\<lambda>line. Logv (fst line) (snd line)) logs;
          command = createCollectionCommand intent options1;
          tr2 = tr1 @ [OpRunCommand (DB intent) command]
      in case runCommand w tr1 (DB intent) command of
           CommandFails msg \<Rightarrow> (Some (ErrorRunningCreateCommand (External msg)), options1, tr2)
         | ReplyUndecodable msg \<Rightarrow> (Some (ErrorDecodingCreateResult (External msg)), options1, tr2)
         | Reply res \<Rightarrow>
             if IsFalsy w (res ''ok'')
             then (Some (CreateCommandFailed (res ''errmsg'')), options1, tr2)
             else (None, options1, tr2))"

text \<open>
  \<open>CollectionExists\<close>: the cache \<open>knownCollections\<close> maps a database to the names already
  listed (\<open>None\<close> is the nil slice). The cursor's documents are given by the \<open>name\<close> value
  of each; the loop appends names to the cache until one is not a string.
\<close>

fun CollectionExists_update ::
  "MongoRestore \<Rightarrow> string \<Rightarrow> bson list \<Rightarrow> error option \<times> MongoRestore" where
  "CollectionExists_update restore dbName [] = (None, restore)"
| "CollectionExists_update restore dbName (colNameRaw # rest) =
     (case colNameRaw of
        BString colName \<Rightarrow>
          CollectionExists_update
            (restore\<lparr>knownCollections := (knownCollections restore)
               (dbName \<mapsto> (case knownCollections restore dbName of
                              None \<Rightarrow> [] | Some names \<Rightarrow> names) @ [colName])\<rparr>)
            dbName rest
      | _ \<Rightarrow> (Some (InvalidCollectionName colNameRaw), restore))"

definition CollectionExists ::
  "world \<Rightarrow> MongoRestore \<Rightarrow> op list \<Rightarrow> string \<Rightarrow> string
     \<Rightarrow> (error + bool) \<times> MongoRestore \<times> op list" where
  "CollectionExists w restore tr dbName coll =
     (if knownCollections restore dbName = None then
        (case GetSession (SessionProvider restore) of
           Inl err \<Rightarrow> (Inl (ErrorEstablishingConnection err), restore, tr)
         | Inr session \<Rightarrow>
             (case listCollections w tr dbName of
                Inl msg \<Rightarrow> (Inl (External msg), restore, tr @ [OpListCollections dbName])
              | Inr collections \<Rightarrow>
                  (case CollectionExists_update restore dbName collections of
                     (Some err, restore1) \<Rightarrow> (Inl err, restore1, tr @ [OpListCollections dbName])
                   | (None, restore1) \<Rightarrow>
                       (Inr (StringSliceContains w (knownCollections restore1 dbName) coll),
                        restore1, tr @ [OpListCollections dbName]))))
      else (Inr (StringSliceContains w (knownCollections restore dbName) coll), restore, tr))"

text \<open>
  \<open>CreateIndexes\<close>, first loop: the index documents are reached through pointers and
  updated in place, so the model returns them as they are when the loop stops (the
  documents after a failing one are untouched), with the error if there is one, and the
  names collected for the log line.
\<close>

fun CreateIndexes_sanitize ::
  "world \<Rightarrow> MongoRestore \<Rightarrow> string \<Rightarrow> string \<Rightarrow> IndexDocument list
     \<Rightarrow> error option \<times> IndexDocument list \<times> string list" where
  "CreateIndexes_sanitize w restore dbName collectionName [] = (None, [], [])"
| "CreateIndexes_sanitize w restore dbName collectionName (index # rest) =
     (let index1 = index\<lparr>Options := (Options index)(''ns'' \<mapsto> BString (dbName @ ''.'' @ collectionName))\<rparr>;
          fullIndexName =
            Sprint_v w (Options index1 ''ns'') @ ''.$'' @ Sprint_v w (Options index1 ''name'')
      in if LT (serverVersion restore) (4, 2, 0) \<and> length fullIndexName > 127
         then (Some (NamespaceTooLong fullIndexName), index1 # rest, [])
         else
           (case Options index1 ''name'' of
              Some (BString nameStr) \<Rightarrow>
                (let index2 =
                       (if \<not> KeepIndexVersion (OutputOptions restore)
                        then index1\<lparr>Options := (Options index1)(''v'' := None)\<rparr>
                        else index1);
                     (err, rest', indexNames) =
                       CreateIndexes_sanitize w restore dbName collectionName rest
                 in (err, index2 # rest', nameStr # indexNames))
            | _ \<Rightarrow> (Some (ExpectedNameToBeString (Options index1 ''name'')), index1 # rest, [])))"

definition LegacyInsertIndex ::
  "world \<Rightarrow> MongoRestore \<Rightarrow> op list \<Rightarrow> string \<Rightarrow> IndexDocument \<Rightarrow> error option \<times> op list" where
  "LegacyInsertIndex w restore tr dbName index =
     (case GetSession (SessionProvider restore) of
        Inl err \<Rightarrow> (Some (ErrorEstablishingConnection err), tr)
      | Inr session \<Rightarrow>
          (case insertOne w tr dbName ''system.indexes'' index of
             Some msg \<Rightarrow>
               (Some (InsertError (External msg)), tr @ [OpInsertOne dbName ''system.indexes'' index])
           | None \<Rightarrow> (None, tr @ [OpInsertOne dbName ''system.indexes'' index])))"

fun CreateIndexes_legacy ::
  "world \<Rightarrow> MongoRestore \<Rightarrow> op list \<Rightarrow> string \<Rightarrow> IndexDocument list \<Rightarrow> error option \<times> op list" where
  "CreateIndexes_legacy w restore tr dbName [] = (None, tr)"
| "CreateIndexes_legacy w restore tr dbName (idx # rest) =
     (let tr1 = tr @ [Logv Info (CHR 0x09 # ''manually creating index '' @ Sprint_v w (Options idx ''name''))]
      in case LegacyInsertIndex w restore tr1 dbName idx of
           (Some err, tr2) \<Rightarrow> (Some (ErrorCreatingIndex (Options idx ''name'') err), tr2)
         | (None, tr2) \<Rightarrow> CreateIndexes_legacy w restore tr2 dbName rest)"

definition CreateIndexes ::
  "world \<Rightarrow> MongoRestore \<Rightarrow> op list \<Rightarrow> string \<Rightarrow> string \<Rightarrow> IndexDocument list
     \<Rightarrow> error option \<times> IndexDocument list \<times> op list" where
  "CreateIndexes w restore tr dbName collectionName indexes =
     (case CreateIndexes_sanitize w restore dbName collectionName indexes of
        (Some err, indexes', indexNames) \<Rightarrow> (Some err, indexes', tr)
      | (None, indexes', indexNames) \<Rightarrow>
          (case GetSession (SessionProvider restore) of
             Inl err \<Rightarrow> (Some (ErrorEstablishingConnection err), indexes', tr)
           | Inr session \<Rightarrow>
               (let rawCommand = [(''createIndexes'', V (BString collectionName)),
                                  (''indexes'', VIndexes indexes')];
                    tr1 = tr @ [Logv Info (CHR 0x09 # ''run create Index command for indexes: ''
                                           @ Join indexNames '', '')];
                    rawCommand1 =
                      (if GTE (serverVersion restore) (4, 1, 9)
                       then rawCommand @ [(''ignoreUnknownIndexOptions'', V (BBool True))]
                       else rawCommand);
                    tr2 = tr1 @ [OpRunCommand dbName rawCommand1]
                in case Err (runCommand w tr1 dbName rawCommand1) of
                     None \<Rightarrow> (None, indexes', tr2)
                   | Some msg \<Rightarrow>
                       if msg \<noteq> ''no such cmd: createIndexes''
                       then (Some (CreateIndexError (External msg)), indexes', tr2)
                       else
                         (case CreateIndexes_legacy w restore
                                 (tr2 @ [Logv Info (CHR 0x09 #
                                    ''createIndexes command not supported, attemping legacy index insertion'')])
                                 dbName indexes' of
                            (err, tr3) \<Rightarrow> (err, indexes', tr3)))))"

text \<open>
  \<open>RestoreUsersOrRoles\<close>. The deferred calls are collected in the order the function
  registers them and run last-registered first when the function returns.
\<close>

record loopArg =
  intent :: Intent
  intentType :: string
  mergeParamName :: string
  tempCollectionName :: string

datatype deferred =
    DeferFileClose string
  | DeferSourceClose string
  | DeferDropTemp loopArg

fun RestoreUsersOrRoles_deferred ::
  "world \<Rightarrow> MongoRestore \<Rightarrow> op list \<Rightarrow> deferred list \<Rightarrow> op list" where
  "RestoreUsersOrRoles_deferred w restore tr [] = tr"
| "RestoreUsersOrRoles_deferred w restore tr (DeferFileClose f # ds) =
     RestoreUsersOrRoles_deferred w restore (tr @ [OpClose f]) ds"
| "RestoreUsersOrRoles_deferred w restore tr (DeferSourceClose f # ds) =
     RestoreUsersOrRoles_deferred w restore (tr @ [OpSourceClose f]) ds"
| "RestoreUsersOrRoles_deferred w restore tr (DeferDropTemp cleanupArg # ds) =
     (case GetSession (SessionProvider restore) of
        Inl e \<Rightarrow>
          RestoreUsersOrRoles_deferred w restore
            (tr @ [Logv Info (''error establishing connection to drop temporary collection admin.''
                              @ tempCollectionName cleanupArg @ '': SessionProvider already closed'')])
            ds
      | Inr session \<Rightarrow>
          (let tr1 = tr @ [Logv DebugHigh (''dropping temporary collection admin.''
                                          @ tempCollectionName cleanupArg)];
               tr2 = tr1 @ [OpDrop ''admin'' (tempCollectionName cleanupArg)]
           in case dropCollection w tr1 ''admin'' (tempCollectionName cleanupArg) of
                Some msg \<Rightarrow>
                  RestoreUsersOrRoles_deferred w restore
                    (tr2 @ [Logv Info (''error dropping temporary collection admin.''
                                       @ tempCollectionName cleanupArg @ '': '' @ msg)])
                    ds
              | None \<Rightarrow> RestoreUsersOrRoles_deferred w restore tr2 ds))"

text \<open>
  The loop over the users and roles arguments. It returns the error that ends the function
  early (if any), the restore object, the trace, \<open>mergeArgs\<close>, the deferred calls registered
  so far and \<open>userTargetDB\<close>.
\<close>

fun RestoreUsersOrRoles_loop ::
  "world \<Rightarrow> MongoRestore \<Rightarrow> op list \<Rightarrow> command \<Rightarrow> deferred list \<Rightarrow> string \<Rightarrow> loopArg list
     \<Rightarrow> error option \<times> MongoRestore \<times> op list \<times> command \<times> deferred list \<times> string" where
  "RestoreUsersOrRoles_loop w restore tr mergeArgs defers userTargetDB [] =
     (None, restore, tr, mergeArgs, defers, userTargetDB)"
| "RestoreUsersOrRoles_loop w restore tr mergeArgs defers userTargetDB (arg # args) =
     (let tr1 =
            (if Size (intent arg) = 0
             then tr @ [Logv Always (intentType arg @ '' file '' @ [CHR 0x27] @ Location (intent arg)
                                     @ [CHR 0x27] @ '' is empty; skipping '' @ intentType arg
                                     @ '' restoration'')]
             else tr);
          tr2 = tr1 @ [Logv Always (''restoring '' @ intentType arg @ '' from '' @ Location (intent arg))];
          mergeArgs1 = mergeArgs @ [(mergeParamName arg, V (BString (''admin.'' @ tempCollectionName arg)))];
          tr3 = tr2 @ [OpOpen (BSONFile (intent arg))]
      in case openFile w tr2 (BSONFile (intent arg)) of
           Some msg \<Rightarrow> (Some (External msg), restore, tr3, mergeArgs1, defers, userTargetDB)
         | None \<Rightarrow>
             (let defers1 = defers @ [DeferFileClose (BSONFile (intent arg)),
                                      DeferSourceClose (BSONFile (intent arg))]
              in case CollectionExists w restore tr3 ''admin'' (tempCollectionName arg) of
                   (Inl err, restore1, tr4) \<Rightarrow>
                     (Some err, restore1, tr4, mergeArgs1, defers1, userTargetDB)
                 | (Inr tempCollectionNameExists, restore1, tr4) \<Rightarrow>
                     (let tr5 =
                            (if tempCollectionNameExists
                             then tr4 @ [Logv Info (''dropping preexisting temporary collection admin.''
                                                    @ tempCollectionName arg)]
                             else tr4);
                          dropErr =
                            (if tempCollectionNameExists
                             then dropCollection w tr5 ''admin'' (tempCollectionName arg)
                             else None);
                          tr6 =
                            (if tempCollectionNameExists
                             then tr5 @ [OpDrop ''admin'' (tempCollectionName arg)]
                             else tr5)
                      in case dropErr of
                           Some msg \<Rightarrow>
                             (Some (ErrorDroppingPreexisting (tempCollectionName arg) (External msg)),
                              restore1, tr6, mergeArgs1, defers1, userTargetDB)
                         | None \<Rightarrow>
                             (let tr7 = tr6 @ [Logv DebugLow (''restoring '' @ intentType arg
                                                              @ '' to temporary collection'')];
                                  tr8 = tr7 @ [OpRestoreCollectionToDB ''admin'' (tempCollectionName arg)
                                                 (BSONFile (intent arg))]
                              in case restoreCollectionToDB w tr7 ''admin'' (tempCollectionName arg)
                                        (BSONFile (intent arg)) of
                                   Some msg \<Rightarrow>
                                     (Some (ErrorRestoring (intentType arg) (External msg)),
                                      restore1, tr8, mergeArgs1, defers1, userTargetDB)
                                 | None \<Rightarrow>
                                     RestoreUsersOrRoles_loop w restore1 tr8 mergeArgs1
                                       (defers1 @ [DeferDropTemp arg]) (DB (intent arg)) args))))"

text \<open>The part of \<open>RestoreUsersOrRoles\<close> after the loop: build and run the merge command.\<close>

definition RestoreUsersOrRoles_merge ::
  "world \<Rightarrow> MongoRestore \<Rightarrow> op list \<Rightarrow> command \<Rightarrow> string \<Rightarrow> error option \<times> op list" where
  "RestoreUsersOrRoles_merge w restore tr mergeArgs userTargetDB0 =
     (let userTargetDB = (if userTargetDB0 = ''admin'' then '''' else userTargetDB0);
          command = [(''_mergeAuthzCollections'', V (BInt 1))] @ mergeArgs
                    @ [(''drop'', V (BBool (Drop (OutputOptions restore)))),
                       (''db'', V (BString userTargetDB))];
          command1 =
            (case WriteConcern (ToolOptions restore) of
               None \<Rightarrow> Inr command
             | Some wc \<Rightarrow>
                 (case MarshalBSONValue w wc of
                    Inl msg \<Rightarrow> Inl (ErrorParsingWriteConcern (External msg))
                  | Inr wcBson \<Rightarrow>
                      (case Unmarshal w wcBson of
                         Inl msg \<Rightarrow> Inl (ErrorParsingWriteConcern (External msg))
                       | Inr writeConcern \<Rightarrow>
                           Inr (command @ [(''writeConcern'', VM writeConcern)]))))
      in case command1 of
           Inl err \<Rightarrow> (Some err, tr)
         | Inr command2 \<Rightarrow>
             (let tr1 = tr @ [Logv DebugLow ''merging users/roles from temp collections''];
                  tr2 = tr1 @ [OpRunCommand ''admin'' command2]
              in case runCommand w tr1 ''admin'' command2 of
                   CommandFails msg \<Rightarrow> (Some (ErrorRunningMergeCommand (External msg)), tr2)
                 | ReplyUndecodable msg \<Rightarrow> (Some (ErrorDecodingMergeResult (External msg)), tr2)
                 | Reply res \<Rightarrow>
                     if IsFalsy w (res ''ok'')
                     then (Some (MergeAuthzCollectionsFailed (res ''errmsg'')), tr2)
                     else (None, tr2)))"

definition RestoreUsersOrRoles_args :: "MongoRestore \<Rightarrow> Intent option \<Rightarrow> Intent option \<Rightarrow> loopArg list" where
  "RestoreUsersOrRoles_args restore users roles =
     (case users of
        None \<Rightarrow> []
      | Some u \<Rightarrow> [\<lparr>intent = u, intentType = ''users'', mergeParamName = ''tempUsersCollection'',
                    tempCollectionName = TempUsersColl (OutputOptions restore)\<rparr>])
     @ (case roles of
          None \<Rightarrow> []
        | Some r \<Rightarrow> [\<lparr>intent = r, intentType = ''roles'', mergeParamName = ''tempRolesCollection'',
                      tempCollectionName = TempRolesColl (OutputOptions restore)\<rparr>])"

definition RestoreUsersOrRoles ::
  "world \<Rightarrow> MongoRestore \<Rightarrow> op list \<Rightarrow> Intent option \<Rightarrow> Intent option
     \<Rightarrow> error option \<times> MongoRestore \<times> op list" where
  "RestoreUsersOrRoles w restore tr users roles =
     (if users = None \<and> roles = None then (None, restore, tr)
      else if users \<noteq> None \<and> roles \<noteq> None \<and> map_option DB users \<noteq> map_option DB roles
      then (Some (DifferentDatabases (case users of Some u \<Rightarrow> DB u | None \<Rightarrow> [])
                                     (case roles of Some r \<Rightarrow> DB r | None \<Rightarrow> [])),
            restore, tr)
      else
        (case GetSession (SessionProvider restore) of
           Inl err \<Rightarrow> (Some (ErrorEstablishingConnection err), restore, tr)
         | Inr session \<Rightarrow>
             (case RestoreUsersOrRoles_loop w restore tr [] [] ''''
                     (RestoreUsersOrRoles_args restore users roles) of
                (Some err, restore1, tr1, mergeArgs, defers, userTargetDB) \<Rightarrow>
                  (Some err, restore1, RestoreUsersOrRoles_deferred w restore1 tr1 (rev defers))
              | (None, restore1, tr1, mergeArgs, defers, userTargetDB) \<Rightarrow>
                  (case RestoreUsersOrRoles_merge w restore1 tr1 mergeArgs userTargetDB of
                     (err, tr2) \<Rightarrow>
                       (err, restore1, RestoreUsersOrRoles_deferred w restore1 tr2 (rev defers))))))"

section \<open>Auxiliary notions and example inputs\<close>

text \<open>
  An error carries server error code \<open>code\<close> when \<open>errors.As\<close> finds a server error in it
  whose \<open>HasErrorCode\<close> accepts the code.
\<close>

definition hasServerErrorCode :: "go_error \<Rightarrow> int \<Rightarrow> bool" where
  "hasServerErrorCode e code =
     (case asServerError e of None \<Rightarrow> False | Some HasErrorCode \<Rightarrow> HasErrorCode code)"

definition duplicateKeyError :: go_error where
  "duplicateKeyError =
     \<lparr>Error = ''E11000 duplicate key error'', asServerError = Some (\<lambda>code. code = 11000),
      asBulkWriteException = None\<rparr>"

text \<open>
  A restore object connected to a 4.0.0 server, and a world in which every operation
  succeeds and no collection exists yet.
\<close>

definition exampleRestore :: MongoRestore where
  "exampleRestore =
     \<lparr>ToolOptions = \<lparr>Namespace = \<lparr>NamespaceDB = '''', NamespaceCollection = ''''\<rparr>,
                     WriteConcern = None\<rparr>,
      OutputOptions = \<lparr>Drop = False, KeepIndexVersion = False,
                       TempUsersColl = ''tempusers'', TempRolesColl = ''temproles''\<rparr>,
      SessionProvider = \<lparr>client = Some MongoClient\<rparr>,
      serverVersion = (4, 0, 0),
      authVersions = \<lparr>Dump = 3, Server = 5\<rparr>,
      knownCollections = Map.empty\<rparr>"

definition exampleWorld :: world where
  "exampleWorld =
     \<lparr>runCommand = (\<lambda>tr db cmd. Reply [''ok'' \<mapsto> BInt 1]),
      insertOne = (\<lambda>tr db coll doc. None),
      dropCollection = (\<lambda>tr db coll. None),
      listCollections = (\<lambda>tr db. Inr []),
      openFile = (\<lambda>tr f. None),
      restoreCollectionToDB = (\<lambda>tr db coll f. None),
      formatValue = (\<lambda>v. ''?''),
      IsFalsy = (\<lambda>v. v = None \<or> v = Some BNull \<or> v = Some (BBool False) \<or> v = Some (BInt 0)),
      StringSliceContains =
        (\<lambda>strs str. case strs of None \<Rightarrow> False | Some names \<Rightarrow> str \<in> set names),
      MarshalBSONValue = (\<lambda>wc. Inr []),
      Unmarshal = (\<lambda>b. Inr Map.empty),
      UnmarshalExtJSON =
        (\<lambda>b. if b = [0x7B, 0x7D]
             then Inr \<lparr>MetadataOptions = [], Indexes = [], UUID = '''', CollectionName = ''''\<rparr>
             else Inl ''invalid JSON input'')\<rparr>"

text \<open>
  Notions used to state what \<open>CreateIndexes\<close> sends. The trace without its log lines;
  the index document as the first loop leaves it (\<open>ns\<close> set to the target namespace, \<open>v\<close>
  removed unless the index version is kept); the fully-qualified index name
  \<open>db.collection.$name\<close> whose length the loop checks; an index the loop accepts (its name
  is a string and, below server version 4.2.0, its full name has at most 127 bytes); the
  \<open>createIndexes\<close> command over all index documents of the collection; and the trace at
  the moment the command is sent, after the line that announces it.
\<close>

definition isLog :: "op \<Rightarrow> bool" where
  "isLog x = (case x of Logv level msg \<Rightarrow> True | _ \<Rightarrow> False)"

definition withoutLogs :: "op list \<Rightarrow> op list" where
  "withoutLogs tr = filter (\<lambda>x. \<not> isLog x) tr"

definition sanitized :: "MongoRestore \<Rightarrow> string \<Rightarrow> string \<Rightarrow> IndexDocument \<Rightarrow> IndexDocument" where
  "sanitized restore dbName collectionName index =
     index\<lparr>Options :=
       (\<lambda>k. if k = ''ns'' then Some (BString (dbName @ ''.'' @ collectionName))
            else if k = ''v'' \<and> \<not> KeepIndexVersion (OutputOptions restore) then None
            else Options index k)\<rparr>"

definition fullIndexName :: "world \<Rightarrow> string \<Rightarrow> string \<Rightarrow> IndexDocument \<Rightarrow> string" where
  "fullIndexName w dbName collectionName index =
     dbName @ ''.'' @ collectionName @ ''.$'' @ Sprint_v w (Options index ''name'')"

definition nameIsString :: "IndexDocument \<Rightarrow> bool" where
  "nameIsString index =
     (case Options index ''name'' of Some (BString nameStr) \<Rightarrow> True | _ \<Rightarrow> False)"

definition acceptable :: "world \<Rightarrow> MongoRestore \<Rightarrow> string \<Rightarrow> string \<Rightarrow> IndexDocument \<Rightarrow> bool" where
  "acceptable w restore dbName collectionName index =
     (nameIsString index
      \<and> \<not> (LT (serverVersion restore) (4, 2, 0)
           \<and> length (fullIndexName w dbName collectionName index) > 127))"

definition createIndexesCommand ::
  "MongoRestore \<Rightarrow> string \<Rightarrow> string \<Rightarrow> IndexDocument list \<Rightarrow> command" where
  "createIndexesCommand restore dbName collectionName indexes =
     [(''createIndexes'', V (BString collectionName)),
      (''indexes'', VIndexes (map (sanitized restore dbName collectionName) indexes))]
     @ (if GTE (serverVersion restore) (4, 1, 9)
        then [(''ignoreUnknownIndexOptions'', V (BBool True))] else [])"

definition createIndexesLogged :: "world \<Rightarrow> op list \<Rightarrow> IndexDocument list \<Rightarrow> op list" where
  "createIndexesLogged w tr indexes =
     tr @ [Logv Info (CHR 0x09 # ''run create Index command for indexes: ''
                      @ Join (map (\<lambda>index. Sprint_v w (Options index ''name'')) indexes) '', '')]"

text \<open>
  An index with an index version, an index whose name makes the full name 133 bytes long,
  and a server that does not know \<open>createIndexes\<close>.
\<close>

definition exampleIndex :: IndexDocument where
  "exampleIndex =
     \<lparr>Options = [''name'' \<mapsto> BString ''a_1'', ''v'' \<mapsto> BInt 2], Key = [(''a'', BInt 1)]\<rparr>"

definition longNameIndex :: IndexDocument where
  "longNameIndex =
     \<lparr>Options = [''name'' \<mapsto> BString (replicate 120 CHR ''x'')], Key = [(''a'', BInt 1)]\<rparr>"

definition legacyWorld :: world where
  "legacyWorld =
     exampleWorld\<lparr>runCommand := (\<lambda>tr db cmd. CommandFails ''no such cmd: createIndexes'')\<rparr>"

text \<open>
  Notions used to state what \<open>RestoreUsersOrRoles\<close> sends: the commands in a trace, and the
  merge argument the loop appends for one of its arguments. Then the intents of the
  examples: a users file of size 0, users dumped with the database \<open>shop\<close>, users of the
  \<open>admin\<close> database; and the merge command of the examples for a given \<open>db\<close> field.
\<close>

definition isRunCommand :: "op \<Rightarrow> bool" where
  "isRunCommand x = (case x of OpRunCommand d c \<Rightarrow> True | _ \<Rightarrow> False)"

definition commandsSent :: "op list \<Rightarrow> op list" where
  "commandsSent tr = filter isRunCommand tr"

definition mergeArg :: "loopArg \<Rightarrow> string \<times> cmd_value" where
  "mergeArg arg = (mergeParamName arg, V (BString (''admin.'' @ tempCollectionName arg)))"

definition emptyUsersIntent :: Intent where
  "emptyUsersIntent =
     \<lparr>DB = ''admin'', C = ''system.users'', BSONFile = ''dump/admin/system.users.bson'',
      Size = 0, Location = ''dump/admin/system.users.bson''\<rparr>"

definition shopUsersIntent :: Intent where
  "shopUsersIntent =
     \<lparr>DB = ''shop'', C = ''$admin.system.users'', BSONFile = ''dump/shop/$admin.system.users.bson'',
      Size = 412, Location = ''dump/shop/$admin.system.users.bson''\<rparr>"

definition adminUsersIntent :: Intent where
  "adminUsersIntent =
     \<lparr>DB = ''admin'', C = ''system.users'', BSONFile = ''dump/admin/system.users.bson'',
      Size = 1204, Location = ''dump/admin/system.users.bson''\<rparr>"

definition exampleMergeCommand :: "string \<Rightarrow> command" where
  "exampleMergeCommand db =
     [(''_mergeAuthzCollections'', V (BInt 1)),
      (''tempUsersCollection'', V (BString ''admin.tempusers'')),
      (''drop'', V (BBool False)),
      (''db'', V (BString db))]"

text \<open>A collection of the \<open>local\<close> database, as found in a dump of all databases.\<close>

definition localIntent :: Intent where
  "localIntent =
     \<lparr>DB = ''local'', C = ''test_auto_idx'', BSONFile = ''dump/local/test_auto_idx.bson'',
      Size = 0, Location = ''dump/local/test_auto_idx.bson''\<rparr>"

text \<open>
  Roles dumped with the database \<open>shop\<close>; a restore with the drop option and a write
  concern; and a world whose driver decodes the marshalled write concern to \<open>{w: majority}\<close>.
\<close>

definition shopRolesIntent :: Intent where
  "shopRolesIntent =
     \<lparr>DB = ''shop'', C = ''$admin.system.roles'', BSONFile = ''dump/shop/$admin.system.roles.bson'',
      Size = 96, Location = ''dump/shop/$admin.system.roles.bson''\<rparr>"

definition majorityRestore :: MongoRestore where
  "majorityRestore =
     exampleRestore
       \<lparr>ToolOptions := \<lparr>Namespace = \<lparr>NamespaceDB = ''shop'', NamespaceCollection = ''''\<rparr>,
                         WriteConcern = Some \<lparr>W = BString ''majority'', Journal = None, WTimeout = 0\<rparr>\<rparr>,
        OutputOptions := \<lparr>Drop = True, KeepIndexVersion = False,
                           TempUsersColl = ''tempusers'', TempRolesColl = ''temproles''\<rparr>\<rparr>"

definition majorityWorld :: world where
  "majorityWorld = exampleWorld\<lparr>Unmarshal := (\<lambda>b. Inr [''w'' \<mapsto> BString ''majority''])\<rparr>"

text \<open>A restore whose target database is \<open>local\<close>.\<close>

definition localRestore :: MongoRestore where
  "localRestore =
     exampleRestore
       \<lparr>ToolOptions := \<lparr>Namespace = \<lparr>NamespaceDB = ''local'', NamespaceCollection = ''''\<rparr>,
                         WriteConcern = None\<rparr>\<rparr>"

section \<open>Timeseries bucket names\<close>

text \<open>
  C8. \<open>GetTimeseriesCollNameFromBucket s\<close> returns a collection name \<open>c\<close> without error
  exactly when \<open>s\<close> is \<open>system.buckets.\<close> followed by the non-empty \<open>c\<close>; it returns an
  error exactly when \<open>s\<close> has no such form (no prefix, or the bare prefix).
\<close>

theorem GetTimeseriesCollNameFromBucket_iff:
  "(GetTimeseriesCollNameFromBucket s = Inr c \<longleftrightarrow> s = ''system.buckets.'' @ c \<and> c \<noteq> '''')
   \<and> (isl (GetTimeseriesCollNameFromBucket s) \<longleftrightarrow>
        \<not> (\<exists>c'. s = ''system.buckets.'' @ c' \<and> c' \<noteq> ''''))"
proof -
  let ?p = "''system.buckets.''"
  have trim: "TrimPrefix (?p @ d) ?p = d" for d
    by (simp add: TrimPrefix_def HasPrefix_def)
  have noprefix: "TrimPrefix s ?p = s" if "\<not> HasPrefix s ?p"
    using that by (simp add: TrimPrefix_def)
  have split: "s = ?p @ drop (length ?p) s" if "HasPrefix s ?p"
  proof -
    from that have "take (length ?p) s = ?p" by (simp add: HasPrefix_def)
    then have "take (length ?p) s @ drop (length ?p) s = ?p @ drop (length ?p) s" by simp
    then show ?thesis by (simp only: append_take_drop_id)
  qed
  have pre: "HasPrefix (?p @ d) ?p" for d
    by (simp add: HasPrefix_def)
  show ?thesis
  proof (cases "HasPrefix s ?p")
    case True
    then obtain d where d: "s = ?p @ d" using split by blast
    show ?thesis
      unfolding d GetTimeseriesCollNameFromBucket_def Let_def trim
      by auto
  next
    case False
    then have "\<And>d. s \<noteq> ?p @ d" using pre by blast
    then show ?thesis
      unfolding GetTimeseriesCollNameFromBucket_def Let_def noprefix [OF False]
      by auto
  qed
qed

theorem GetTimeseriesCollNameFromBucket_iff_witness:
  "GetTimeseriesCollNameFromBucket ''system.buckets.weather'' = Inr ''weather''
   \<and> isl (GetTimeseriesCollNameFromBucket ''system.buckets.'')"
  using GetTimeseriesCollNameFromBucket_iff [of "''system.buckets.weather''" "''weather''"]
    GetTimeseriesCollNameFromBucket_iff [of "''system.buckets.''" "''''"]
  by simp

section \<open>Auth versions\<close>

text \<open>
  C4. \<open>ValidateAuthVersions\<close> returns nil exactly for the dump/server pairs (3,5), (5,5),
  (3,3), (1,1) and (1,3). It returns an error exactly in the remaining cases: the dump or
  the server auth version is 2 or 4, the pair is (5,3), (1,5), (5,1) or (3,1), or the pair
  is none of the nine pairs the function recognises. The function only reads the restore
  object and logs: it has no access to the server.
\<close>

theorem ValidateAuthVersions_exact:
  "(fst (ValidateAuthVersions restore) = None \<longleftrightarrow>
      (Dump (authVersions restore), Server (authVersions restore))
        \<in> {(3, 5), (5, 5), (3, 3), (1, 1), (1, 3)})
   \<and> (fst (ValidateAuthVersions restore) \<noteq> None \<longleftrightarrow>
        Dump (authVersions restore) \<in> {2, 4} \<or> Server (authVersions restore) \<in> {2, 4}
        \<or> (Dump (authVersions restore), Server (authVersions restore))
             \<in> {(5, 3), (1, 5), (5, 1), (3, 1)}
        \<or> (Dump (authVersions restore), Server (authVersions restore))
             \<notin> {(3, 5), (5, 5), (3, 3), (1, 1), (1, 5), (5, 3), (1, 3), (5, 1), (3, 1)})"
proof -
  obtain d s where av: "authVersions restore = \<lparr>Dump = d, Server = s\<rparr>"
    by (cases "authVersions restore") auto
  show ?thesis
    unfolding ValidateAuthVersions_def Let_def av
    by auto
qed

theorem ValidateAuthVersions_exact_witness:
  "fst (ValidateAuthVersions exampleRestore) = None
   \<and> fst (ValidateAuthVersions (exampleRestore\<lparr>authVersions := \<lparr>Dump = 5, Server = 3\<rparr>\<rparr>)) \<noteq> None"
  using ValidateAuthVersions_exact [of exampleRestore]
    ValidateAuthVersions_exact [of "exampleRestore\<lparr>authVersions := \<lparr>Dump = 5, Server = 3\<rparr>\<rparr>"]
  by (simp add: exampleRestore_def)

section \<open>Error filtering\<close>

text \<open>
  C2, as the claim states it, fails: with stop-on-error set, an error whose text is the
  sentinel \<open>unacknowledged write\<close> is not propagated; \<open>FilterError\<close> returns nil.
\<close>

theorem FilterError_sentinel_counterexample:
  "fst (FilterError True
          (Some \<lparr>Error = ''unacknowledged write'', asServerError = None,
                 asBulkWriteException = None\<rparr>)) = None"
  by (simp add: FilterError_def ErrUnacknowledgedWrite_def)

text \<open>
  C2, amended. The nil error gives nil. An error whose text is the sentinel
  \<open>unacknowledged write\<close> is swallowed (nil is returned, nothing is logged) whether or
  not stop-on-error is set. Any other error carrying server error code 11000 or 121 is,
  when stop-on-error is not set, logged at level \<open>Always\<close> (one line per write error of a
  bulk write exception, otherwise one line with the error's text) and swallowed, and, when
  stop-on-error is set, propagated unlogged. Every other non-nil error is propagated.
\<close>

theorem FilterError_amended:
  "FilterError stopOnError None = (None, [])
   \<and> (Error e = ''unacknowledged write'' \<longrightarrow> FilterError stopOnError (Some e) = (None, []))
   \<and> (Error e \<noteq> ''unacknowledged write'' \<and> (hasServerErrorCode e 11000 \<or> hasServerErrorCode e 121)
        \<and> \<not> stopOnError \<longrightarrow>
        FilterError stopOnError (Some e) =
          (None, map (\<lambda>message. (Always, ''continuing through error: '' @ message))
                   (case asBulkWriteException e of Some writeErrors \<Rightarrow> writeErrors
                    | None \<Rightarrow> [Error e])))
   \<and> (Error e \<noteq> ''unacknowledged write'' \<and> (hasServerErrorCode e 11000 \<or> hasServerErrorCode e 121)
        \<and> stopOnError \<longrightarrow>
        FilterError stopOnError (Some e) = (Some e, []))
   \<and> (Error e \<noteq> ''unacknowledged write'' \<and> \<not> hasServerErrorCode e 11000 \<and> \<not> hasServerErrorCode e 121 \<longrightarrow>
        FilterError stopOnError (Some e) = (Some e, []))"
  by (auto simp: FilterError_def CanIgnoreError_def ErrUnacknowledgedWrite_def
      ignorableWriteErrorCodes_def ErrDuplicateKeyCode_def ErrFailedDocumentValidation_def
      continueThroughErrorFormat_def hasServerErrorCode_def
      split: option.splits)

theorem FilterError_amended_witness:
  "FilterError True (Some \<lparr>Error = ''unacknowledged write'', asServerError = None,
                            asBulkWriteException = None\<rparr>) = (None, [])
   \<and> FilterError False (Some duplicateKeyError)
       = (None, [(Always, ''continuing through error: E11000 duplicate key error'')])
   \<and> FilterError True (Some duplicateKeyError) = (Some duplicateKeyError, [])
   \<and> FilterError False (Some \<lparr>Error = ''connection reset'', asServerError = None,
                            asBulkWriteException = None\<rparr>)
       = (Some \<lparr>Error = ''connection reset'', asServerError = None,
                            asBulkWriteException = None\<rparr>, [])"
  using FilterError_amended [of True "\<lparr>Error = ''unacknowledged write'', asServerError = None,
                            asBulkWriteException = None\<rparr>"]
    FilterError_amended [of False duplicateKeyError]
    FilterError_amended [of True duplicateKeyError]
    FilterError_amended [of False "\<lparr>Error = ''connection reset'', asServerError = None,
                            asBulkWriteException = None\<rparr>"]
  by (simp add: duplicateKeyError_def hasServerErrorCode_def)

section \<open>Collection metadata\<close>

text \<open>
  C10. \<open>MetadataFromJSON\<close> on the empty byte slice returns a nil metadata pointer and a
  nil error; on a non-empty slice it returns an error exactly when \<open>UnmarshalExtJSON\<close>
  fails (and then that error, with a nil pointer), and the decoded metadata otherwise.
\<close>

theorem MetadataFromJSON_empty_or_unmarshal:
  "MetadataFromJSON w [] = (None, None)
   \<and> (jsonBytes \<noteq> [] \<longrightarrow>
        (snd (MetadataFromJSON w jsonBytes) \<noteq> None \<longleftrightarrow> isl (UnmarshalExtJSON w jsonBytes))
        \<and> MetadataFromJSON w jsonBytes =
            (case UnmarshalExtJSON w jsonBytes of
               Inl msg \<Rightarrow> (None, Some (External msg))
             | Inr meta \<Rightarrow> (Some meta, None)))"
  by (auto simp: MetadataFromJSON_def split: sum.splits)

theorem MetadataFromJSON_empty_or_unmarshal_witness:
  "MetadataFromJSON exampleWorld [] = (None, None)
   \<and> MetadataFromJSON exampleWorld [0x7B, 0x7D]
       = (Some \<lparr>MetadataOptions = [], Indexes = [], UUID = '''', CollectionName = ''''\<rparr>, None)
   \<and> MetadataFromJSON exampleWorld [0x7B] = (None, Some (External ''invalid JSON input''))"
  using MetadataFromJSON_empty_or_unmarshal [of exampleWorld "[0x7B, 0x7D]"]
    MetadataFromJSON_empty_or_unmarshal [of exampleWorld "[0x7B]"]
  by (simp add: exampleWorld_def)

section \<open>Collection options\<close>

lemma UpdateAutoIndexId_loop_map:
  "fst (UpdateAutoIndexId_loop restore options) =
     map (\<lambda>elem. if elem = (''autoIndexId'', BBool False)
                     \<and> NamespaceDB (Namespace (ToolOptions restore)) \<noteq> ''local''
                  then (''autoIndexId'', BBool True) else elem) options"
  by (induction options) (auto simp: split_beta Let_def)

text \<open>
  What \<open>UpdateAutoIndexId\<close> does, for every restore object and every list of options: the
  database its guard reads is the one named in the tool's namespace options,
  \<open>restore.ToolOptions.Namespace.DB\<close>; the \<open>create\<close> command goes to the database of
  the intent.
\<close>

lemma UpdateAutoIndexId_effect:
  "(GTE (serverVersion restore) (4, 0, 0)
      \<and> NamespaceDB (Namespace (ToolOptions restore)) \<noteq> ''local'' \<longrightarrow>
      fst (UpdateAutoIndexId restore options) =
        map (\<lambda>elem. if elem = (''autoIndexId'', BBool False)
                     then (''autoIndexId'', BBool True) else elem) options)
   \<and> (LT (serverVersion restore) (4, 0, 0)
        \<or> NamespaceDB (Namespace (ToolOptions restore)) = ''local'' \<longrightarrow>
        fst (UpdateAutoIndexId restore options) = options)
   \<and> length (fst (UpdateAutoIndexId restore options)) = length options
   \<and> (\<forall>i < length options. options ! i \<noteq> (''autoIndexId'', BBool False) \<longrightarrow>
         fst (UpdateAutoIndexId restore options) ! i = options ! i)
   \<and> fst (snd (createCollectionWithCommand w restore tr session target options))
       = fst (UpdateAutoIndexId restore options)
   \<and> commandsSent (snd (snd (createCollectionWithCommand w restore tr session target options)))
       = commandsSent tr
         @ [OpRunCommand (DB target)
              ((''create'', V (BString (C target)))
               # map (\<lambda>elem. (fst elem, V (snd elem))) (fst (UpdateAutoIndexId restore options)))]"
proof -
  have lt: "LT v (4, 0, 0) \<longleftrightarrow> \<not> GTE v (4, 0, 0)" for v
    by (simp add: LT_def GTE_def)
  have logs: "commandsSent (map (\<lambda>line. Logv (fst line) (snd line)) ls) = []" for ls
    by (induction ls) (simp_all add: commandsSent_def isRunCommand_def)
  have cmd: "commandsSent (t @ [OpRunCommand d c]) = commandsSent t @ [OpRunCommand d c]" for t d c
    by (simp add: commandsSent_def isRunCommand_def)
  have a: "fst (snd (createCollectionWithCommand w restore tr session target options))
       = fst (UpdateAutoIndexId restore options)"
    by (simp add: createCollectionWithCommand_def split_beta Let_def split: cmd_reply.split)
  have b: "snd (snd (createCollectionWithCommand w restore tr session target options))
       = (tr @ map (\<lambda>line. Logv (fst line) (snd line)) (snd (UpdateAutoIndexId restore options)))
         @ [OpRunCommand (DB target)
              (createCollectionCommand target (fst (UpdateAutoIndexId restore options)))]"
    by (simp add: createCollectionWithCommand_def split_beta Let_def split: cmd_reply.split)
  have c: "commandsSent (snd (snd (createCollectionWithCommand w restore tr session target options)))
       = commandsSent tr
         @ [OpRunCommand (DB target)
              ((''create'', V (BString (C target)))
               # map (\<lambda>elem. (fst elem, V (snd elem))) (fst (UpdateAutoIndexId restore options)))]"
    unfolding b cmd by (simp add: commandsSent_def logs [unfolded commandsSent_def] createCollectionCommand_def)
  show ?thesis
    by (simp add: a c)
       (simp add: UpdateAutoIndexId_def UpdateAutoIndexId_loop_map lt map_idI)
qed

text \<open>
  C5. The rewrite of \<open>autoIndexId: false\<close> is not withheld from every restore into the
  database \<open>local\<close>. Restoring a whole dump (no target database named, server 4.0.0),
  the creation of a collection of \<open>local\<close> sends the \<open>create\<close> command to \<open>local\<close>
  with \<open>autoIndexId: false\<close> rewritten to \<open>true\<close>; only when \<open>local\<close> is also the
  database named in the tool's namespace options is the option left as it is.
\<close>

theorem createCollection_local_rewritten:
  "createCollectionWithCommand exampleWorld exampleRestore [] MongoClient localIntent
     [(''autoIndexId'', BBool False)]
   = (None, [(''autoIndexId'', BBool True)],
      [Logv Always autoIndexIdMessage,
       OpRunCommand ''local''
         [(''create'', V (BString ''test_auto_idx'')), (''autoIndexId'', V (BBool True))]])
   \<and> createCollectionWithCommand exampleWorld localRestore [] MongoClient localIntent
       [(''autoIndexId'', BBool False)]
     = (None, [(''autoIndexId'', BBool False)],
        [OpRunCommand ''local''
           [(''create'', V (BString ''test_auto_idx'')), (''autoIndexId'', V (BBool False))]])"
  by (simp add: createCollectionWithCommand_def UpdateAutoIndexId_def createCollectionCommand_def
      exampleRestore_def localRestore_def exampleWorld_def localIntent_def GTE_def)

section \<open>Users and roles\<close>

text \<open>
  C9. With both intents nil, \<open>RestoreUsersOrRoles\<close> returns nil with the restore object
  and the trace as they were: nothing is sent to the server. With both intents present but
  naming different databases it returns an error, again with the restore object and the
  trace unchanged.
\<close>

theorem RestoreUsersOrRoles_nil_or_mismatch:
  "RestoreUsersOrRoles w restore tr None None = (None, restore, tr)
   \<and> (DB users \<noteq> DB roles \<longrightarrow>
        RestoreUsersOrRoles w restore tr (Some users) (Some roles) =
          (Some (DifferentDatabases (DB users) (DB roles)), restore, tr))"
  by (simp add: RestoreUsersOrRoles_def)

theorem RestoreUsersOrRoles_nil_or_mismatch_witness:
  "RestoreUsersOrRoles exampleWorld exampleRestore [] None None = (None, exampleRestore, [])
   \<and> RestoreUsersOrRoles exampleWorld exampleRestore []
         (Some \<lparr>DB = ''admin'', C = ''system.users'', BSONFile = ''dump/admin/system.users.bson'',
                 Size = 120, Location = ''dump/admin/system.users.bson''\<rparr>)
         (Some \<lparr>DB = ''shop'', C = ''system.roles'', BSONFile = ''dump/shop/system.roles.bson'',
                 Size = 80, Location = ''dump/shop/system.roles.bson''\<rparr>)
       = (Some (DifferentDatabases ''admin'' ''shop''), exampleRestore, [])"
  using RestoreUsersOrRoles_nil_or_mismatch [of exampleWorld exampleRestore "[]"
      "\<lparr>DB = ''admin'', C = ''system.users'', BSONFile = ''dump/admin/system.users.bson'',
                 Size = 120, Location = ''dump/admin/system.users.bson''\<rparr>"
      "\<lparr>DB = ''shop'', C = ''system.roles'', BSONFile = ''dump/shop/system.roles.bson'',
                 Size = 80, Location = ''dump/shop/system.roles.bson''\<rparr>"]
  by simp

subsection \<open>What \<open>RestoreUsersOrRoles\<close> sends\<close>

lemma commandsSent_append [simp]: "commandsSent (a @ b) = commandsSent a @ commandsSent b"
  by (simp add: commandsSent_def)

lemma commandsSent_simps [simp]:
  "commandsSent [] = []"
  "commandsSent (OpRunCommand d c # tr) = OpRunCommand d c # commandsSent tr"
  "commandsSent (OpInsertOne d coll doc # tr) = commandsSent tr"
  "commandsSent (OpDrop d coll # tr) = commandsSent tr"
  "commandsSent (OpListCollections d # tr) = commandsSent tr"
  "commandsSent (OpOpen f # tr) = commandsSent tr"
  "commandsSent (OpClose f # tr) = commandsSent tr"
  "commandsSent (OpSourceClose f # tr) = commandsSent tr"
  "commandsSent (OpRestoreCollectionToDB d coll f # tr) = commandsSent tr"
  "commandsSent (Logv level msg # tr) = commandsSent tr"
  by (simp_all add: commandsSent_def isRunCommand_def)

lemma CollectionExists_commandsSent:
  "commandsSent (snd (snd (CollectionExists w restore tr dbName coll))) = commandsSent tr"
  by (simp add: CollectionExists_def split: sum.split prod.split option.split)

lemma CollectionExists_commandsSentD:
  "CollectionExists w restore tr dbName coll = (res, restore1, tr1)
   \<Longrightarrow> commandsSent tr1 = commandsSent tr"
  using CollectionExists_commandsSent [of w restore tr dbName coll] by simp

lemma RestoreUsersOrRoles_deferred_commandsSent:
  "commandsSent (RestoreUsersOrRoles_deferred w restore tr ds) = commandsSent tr"
proof (induction w restore tr ds rule: RestoreUsersOrRoles_deferred.induct)
  case (1 w restore tr)
  then show ?case by simp
next
  case (2 w restore tr f ds)
  then show ?case by simp
next
  case (3 w restore tr f ds)
  then show ?case by simp
next
  case (4 w restore tr cleanupArg ds)
  show ?case
  proof (cases "GetSession (SessionProvider restore)")
    case (Inl e)
    with 4(1) show ?thesis by simp
  next
    case (Inr session)
    show ?thesis
    proof (cases "dropCollection w
            (tr @ [Logv DebugHigh (''dropping temporary collection admin.'' @ tempCollectionName cleanupArg)])
            ''admin'' (tempCollectionName cleanupArg)")
      case None
      with Inr 4(2) [OF Inr refl refl None] show ?thesis by (simp add: Let_def)
    next
      case (Some msg)
      with Inr 4(3) [OF Inr refl refl Some] show ?thesis by (simp add: Let_def)
    qed
  qed
qed

lemma RestoreUsersOrRoles_loop_result:
  "RestoreUsersOrRoles_loop w restore tr mergeArgs defers userTargetDB args
     = (err, restore1, tr1, mergeArgs1, defers1, db1)
   \<Longrightarrow> commandsSent tr1 = commandsSent tr
       \<and> (err = None \<longrightarrow>
             mergeArgs1 = mergeArgs @ map mergeArg args
             \<and> db1 = (if args = [] then userTargetDB else DB (intent (last args))))"
proof (induction args arbitrary: restore tr mergeArgs defers userTargetDB)
  case Nil
  then show ?case by simp
next
  case (Cons arg args)
  from Cons.prems show ?case
    by (auto simp: Let_def mergeArg_def
        split: option.splits sum.splits prod.splits if_splits
        dest!: CollectionExists_commandsSentD Cons.IH)
qed

lemma CollectionExists_update_fields:
  "CollectionExists_update restore dbName names = (e, restore1)
   \<Longrightarrow> OutputOptions restore1 = OutputOptions restore
       \<and> ToolOptions restore1 = ToolOptions restore
       \<and> SessionProvider restore1 = SessionProvider restore"
proof (induction names arbitrary: restore)
  case Nil
  then show ?case by simp
next
  case (Cons colNameRaw rest)
  from Cons.prems show ?case
    by (cases colNameRaw) (auto dest!: Cons.IH)
qed

lemma CollectionExists_fields:
  "CollectionExists w restore tr dbName coll = (res, restore1, tr1)
   \<Longrightarrow> OutputOptions restore1 = OutputOptions restore
       \<and> ToolOptions restore1 = ToolOptions restore
       \<and> SessionProvider restore1 = SessionProvider restore"
  by (auto simp: CollectionExists_def split: if_splits sum.splits prod.splits option.splits
      dest!: CollectionExists_update_fields)

lemma RestoreUsersOrRoles_loop_fields:
  "RestoreUsersOrRoles_loop w restore tr mergeArgs defers userTargetDB args
     = (err, restore1, tr1, mergeArgs1, defers1, db1)
   \<Longrightarrow> OutputOptions restore1 = OutputOptions restore
       \<and> ToolOptions restore1 = ToolOptions restore
       \<and> SessionProvider restore1 = SessionProvider restore"
proof (induction args arbitrary: restore tr mergeArgs defers userTargetDB)
  case Nil
  then show ?case by simp
next
  case (Cons arg args)
  from Cons.prems show ?case
    by (auto simp: Let_def
        split: option.splits sum.splits prod.splits if_splits
        dest!: CollectionExists_fields Cons.IH)
qed

lemma RestoreUsersOrRoles_merge_sent:
  "\<exists>sent. commandsSent (snd (RestoreUsersOrRoles_merge w restore tr mergeArgs targetDB))
             = commandsSent tr @ sent
     \<and> (sent = []
         \<or> (\<exists>writeConcernPart.
               sent = [OpRunCommand ''admin''
                         ((''_mergeAuthzCollections'', V (BInt 1)) # mergeArgs
                          @ [(''drop'', V (BBool (Drop (OutputOptions restore)))),
                             (''db'', V (BString (if targetDB = ''admin'' then '''' else targetDB)))]
                          @ writeConcernPart)]))"
  by (auto simp: RestoreUsersOrRoles_merge_def Let_def
      split: option.split sum.split cmd_reply.split)

lemma RestoreUsersOrRoles_args_last:
  assumes "users = Some i \<or> roles = Some i"
    and "\<not> (users \<noteq> None \<and> roles \<noteq> None \<and> map_option DB users \<noteq> map_option DB roles)"
  shows "RestoreUsersOrRoles_args restore users roles \<noteq> []
         \<and> DB (intent (last (RestoreUsersOrRoles_args restore users roles))) = DB i"
  using assms by (cases users; cases roles) (auto simp: RestoreUsersOrRoles_args_def)

lemma RestoreUsersOrRoles_sent:
  assumes i: "users = Some i \<or> roles = Some i"
  shows "\<exists>sent. commandsSent (snd (snd (RestoreUsersOrRoles w restore tr users roles)))
             = commandsSent tr @ sent
     \<and> (sent = []
         \<or> (\<exists>writeConcernPart.
               sent = [OpRunCommand ''admin''
                         ((''_mergeAuthzCollections'', V (BInt 1))
                          # map mergeArg (RestoreUsersOrRoles_args restore users roles)
                          @ [(''drop'', V (BBool (Drop (OutputOptions restore)))),
                             (''db'', V (BString (if DB i = ''admin'' then '''' else DB i)))]
                          @ writeConcernPart)]))"
proof -
  let ?args = "RestoreUsersOrRoles_args restore users roles"
  let ?res = "RestoreUsersOrRoles w restore tr users roles"
  from i have notnil: "\<not> (users = None \<and> roles = None)" by auto
  show ?thesis
  proof (cases "users \<noteq> None \<and> roles \<noteq> None \<and> map_option DB users \<noteq> map_option DB roles")
    case True
    then have "snd (snd ?res) = tr" by (simp add: RestoreUsersOrRoles_def)
    then have "commandsSent (snd (snd ?res)) = commandsSent tr" by simp
    then show ?thesis by (intro exI [of _ "[]"]) simp
  next
    case early: False
    show ?thesis
    proof (cases "GetSession (SessionProvider restore)")
      case (Inl e)
      with early notnil have "snd (snd ?res) = tr" by (simp add: RestoreUsersOrRoles_def)
      then have "commandsSent (snd (snd ?res)) = commandsSent tr" by simp
    then show ?thesis by (intro exI [of _ "[]"]) simp
    next
      case (Inr session)
      obtain err restore1 tr1 mergeArgs defers db1 where
        loop: "RestoreUsersOrRoles_loop w restore tr [] [] '''' ?args
                 = (err, restore1, tr1, mergeArgs, defers, db1)"
        by (cases "RestoreUsersOrRoles_loop w restore tr [] [] '''' ?args") auto
      have c1: "(users = None \<and> roles = None) = False" using notnil by simp
      have c2: "(users \<noteq> None \<and> roles \<noteq> None \<and> map_option DB users \<noteq> map_option DB roles) = False"
        using early by simp
      have res: "?res =
          (case err of
             Some e \<Rightarrow> (Some e, restore1, RestoreUsersOrRoles_deferred w restore1 tr1 (rev defers))
           | None \<Rightarrow>
               (case RestoreUsersOrRoles_merge w restore1 tr1 mergeArgs db1 of
                  (err2, tr2) \<Rightarrow>
                    (err2, restore1, RestoreUsersOrRoles_deferred w restore1 tr2 (rev defers))))"
        unfolding RestoreUsersOrRoles_def c1 c2 if_False Inr sum.case loop prod.case
        by (cases err) simp_all
      from RestoreUsersOrRoles_loop_result [OF loop]
      have tr1: "commandsSent tr1 = commandsSent tr"
        and ok: "err = None \<longrightarrow> mergeArgs = map mergeArg ?args
                 \<and> db1 = (if ?args = [] then '''' else DB (intent (last ?args)))"
        by simp_all
      from RestoreUsersOrRoles_loop_fields [OF loop]
      have oo: "OutputOptions restore1 = OutputOptions restore" by simp
      show ?thesis
      proof (cases err)
        case (Some e)
        then have "snd (snd ?res) = RestoreUsersOrRoles_deferred w restore1 tr1 (rev defers)"
          by (simp add: res)
        then have "commandsSent (snd (snd ?res)) = commandsSent tr"
          by (simp add: RestoreUsersOrRoles_deferred_commandsSent tr1)
        then show ?thesis by (intro exI [of _ "[]"]) simp
      next
        case None
        with ok RestoreUsersOrRoles_args_last [OF i early, of restore]
        have ma: "mergeArgs = map mergeArg ?args" and db1: "db1 = DB i" by simp_all
        from None
        have "snd (snd ?res) = RestoreUsersOrRoles_deferred w restore1
                (snd (RestoreUsersOrRoles_merge w restore1 tr1 mergeArgs db1)) (rev defers)"
          by (simp add: res split_beta)
        then have eq: "commandsSent (snd (snd ?res))
            = commandsSent (snd (RestoreUsersOrRoles_merge w restore1 tr1 (map mergeArg ?args) (DB i)))"
          by (simp add: RestoreUsersOrRoles_deferred_commandsSent ma db1)
        from RestoreUsersOrRoles_merge_sent [of w restore1 tr1 "map mergeArg ?args" "DB i"]
        show ?thesis unfolding eq oo tr1 .
      qed
    qed
  qed
qed

lemma merge_command_fields:
  "map_of ((''_mergeAuthzCollections'', V (BInt 1))
           # map mergeArg (RestoreUsersOrRoles_args restore users roles)
           @ [(''drop'', dropValue), (''db'', dbValue)] @ writeConcernPart) ''drop'' = Some dropValue
   \<and> map_of ((''_mergeAuthzCollections'', V (BInt 1))
           # map mergeArg (RestoreUsersOrRoles_args restore users roles)
           @ [(''drop'', dropValue), (''db'', dbValue)] @ writeConcernPart) ''db'' = Some dbValue"
  by (cases users; cases roles) (simp_all add: RestoreUsersOrRoles_args_def mergeArg_def)

lemma RestoreUsersOrRoles_users_only_run:
  "RestoreUsersOrRoles exampleWorld exampleRestore [] (Some u) None =
     (None, exampleRestore,
      (if Size u = 0
       then [Logv Always (''users file '' @ [CHR 0x27] @ Location u @ [CHR 0x27]
                          @ '' is empty; skipping users restoration'')]
       else [])
      @ [Logv Always (''restoring users from '' @ Location u),
         OpOpen (BSONFile u),
         OpListCollections ''admin'',
         Logv DebugLow ''restoring users to temporary collection'',
         OpRestoreCollectionToDB ''admin'' ''tempusers'' (BSONFile u),
         Logv DebugLow ''merging users/roles from temp collections'',
         OpRunCommand ''admin''
           [(''_mergeAuthzCollections'', V (BInt 1)),
            (''tempUsersCollection'', V (BString ''admin.tempusers'')),
            (''drop'', V (BBool False)),
            (''db'', V (BString (if DB u = ''admin'' then '''' else DB u)))],
         Logv DebugHigh ''dropping temporary collection admin.tempusers'',
         OpDrop ''admin'' ''tempusers'',
         OpSourceClose (BSONFile u),
         OpClose (BSONFile u)])"
proof -
  define arg where "arg = \<lparr>intent = u, intentType = ''users'', mergeParamName = ''tempUsersCollection'',
        tempCollectionName = ''tempusers''\<rparr>"
  have ce: "CollectionExists exampleWorld exampleRestore tr ''admin'' ''tempusers''
      = (Inr False, exampleRestore, tr @ [OpListCollections ''admin''])" for tr
    by (simp add: CollectionExists_def exampleRestore_def exampleWorld_def GetSession_def)
  have args: "RestoreUsersOrRoles_args exampleRestore (Some u) None = [arg]"
    by (simp add: RestoreUsersOrRoles_args_def exampleRestore_def arg_def)
  have w: "openFile exampleWorld t f = None" "dropCollection exampleWorld t d c = None"
    "restoreCollectionToDB exampleWorld t d c f = None"
    "runCommand exampleWorld t d cmd = Reply [''ok'' \<mapsto> BInt 1]"
    "IsFalsy exampleWorld (Some (BInt 1)) = False" for t f d c cmd
    by (simp_all add: exampleWorld_def)
  have r: "GetSession (SessionProvider exampleRestore) = Inr MongoClient"
    "WriteConcern (ToolOptions exampleRestore) = None"
    "Drop (OutputOptions exampleRestore) = False"
    by (simp_all add: exampleRestore_def GetSession_def)
  have loop: "RestoreUsersOrRoles_loop exampleWorld exampleRestore [] [] [] '''' [arg]
    = (None, exampleRestore,
       (if Size u = 0
        then [Logv Always (''users file '' @ [CHR 0x27] @ Location u @ [CHR 0x27]
                          @ '' is empty; skipping users restoration'')]
        else [])
       @ [Logv Always (''restoring users from '' @ Location u),
          OpOpen (BSONFile u),
          OpListCollections ''admin'',
          Logv DebugLow ''restoring users to temporary collection'',
          OpRestoreCollectionToDB ''admin'' ''tempusers'' (BSONFile u)],
       [(''tempUsersCollection'', V (BString ''admin.tempusers''))],
       [DeferFileClose (BSONFile u), DeferSourceClose (BSONFile u), DeferDropTemp arg],
       DB u)"
    by (simp add: Let_def ce w arg_def)
  have arg: "tempCollectionName arg = ''tempusers''" by (simp add: arg_def)
  show ?thesis
    unfolding RestoreUsersOrRoles_def args loop
    by (simp add: r w arg RestoreUsersOrRoles_merge_def Let_def)
qed

lemma CollectionExists_update_strings:
  "fst (CollectionExists_update restore dbName (map BString names)) = None"
  by (induction names arbitrary: restore) simp_all

lemma CollectionExists_succeeds:
  assumes "client (SessionProvider restore) \<noteq> None"
    and "\<forall>t. \<exists>names. listCollections w t dbName = Inr (map BString names)"
  shows "\<exists>found. fst (CollectionExists w restore tr dbName coll) = Inr found"
proof (cases "knownCollections restore dbName = None")
  case False
  then show ?thesis by (auto simp: CollectionExists_def)
next
  case True
  from assms(1) obtain c where c: "GetSession (SessionProvider restore) = Inr c"
    by (auto simp: GetSession_def)
  from assms(2) obtain names where n: "listCollections w tr dbName = Inr (map BString names)"
    by auto
  obtain e r1 where u: "CollectionExists_update restore dbName (map BString names) = (e, r1)"
    by (cases "CollectionExists_update restore dbName (map BString names)") auto
  with CollectionExists_update_strings [of restore dbName names] have "e = None" by simp
  with True c n u show ?thesis by (simp add: CollectionExists_def)
qed

lemma RestoreUsersOrRoles_loop_succeeds:
  assumes "client (SessionProvider restore) \<noteq> None"
    and "\<forall>t f. openFile w t f = None"
    and "\<forall>t. \<exists>names. listCollections w t ''admin'' = Inr (map BString names)"
    and "\<forall>t c. dropCollection w t ''admin'' c = None"
    and "\<forall>t c f. restoreCollectionToDB w t ''admin'' c f = None"
  shows "fst (RestoreUsersOrRoles_loop w restore tr mergeArgs defers userTargetDB args) = None"
  using assms(1)
proof (induction args arbitrary: restore tr mergeArgs defers userTargetDB)
  case Nil
  then show ?case by simp
next
  case (Cons arg args)
  define tr3 where "tr3 =
     (if Size (intent arg) = 0
      then tr @ [Logv Always (intentType arg @ '' file '' @ [CHR 0x27] @ Location (intent arg)
                              @ [CHR 0x27] @ '' is empty; skipping '' @ intentType arg
                              @ '' restoration'')]
      else tr)
     @ [Logv Always (''restoring '' @ intentType arg @ '' from '' @ Location (intent arg))]
     @ [OpOpen (BSONFile (intent arg))]"
  obtain res restore1 tr4 where
    ce: "CollectionExists w restore tr3 ''admin'' (tempCollectionName arg) = (res, restore1, tr4)"
    by (cases "CollectionExists w restore tr3 ''admin'' (tempCollectionName arg)") auto
  from CollectionExists_succeeds [OF Cons.prems assms(3), of tr3 "tempCollectionName arg"] ce
  obtain found where res: "res = Inr found" by auto
  from CollectionExists_fields [OF ce] Cons.prems
  have cl1: "client (SessionProvider restore1) \<noteq> None" by simp
  note IH = Cons.IH [OF cl1]
  show ?case
    using ce [unfolded tr3_def] res assms(2,4,5) IH
    by (simp add: Let_def)
qed

lemma RestoreUsersOrRoles_merge_sends:
  assumes "(WriteConcern (ToolOptions restore) = None \<and> writeConcernPart = [])
           \<or> (\<exists>wc wcBson writeConcern.
                 WriteConcern (ToolOptions restore) = Some wc
                 \<and> MarshalBSONValue w wc = Inr wcBson
                 \<and> Unmarshal w wcBson = Inr writeConcern
                 \<and> writeConcernPart = [(''writeConcern'', VM writeConcern)])"
  shows "commandsSent (snd (RestoreUsersOrRoles_merge w restore tr mergeArgs targetDB))
           = commandsSent tr
             @ [OpRunCommand ''admin''
                  ((''_mergeAuthzCollections'', V (BInt 1)) # mergeArgs
                   @ [(''drop'', V (BBool (Drop (OutputOptions restore)))),
                      (''db'', V (BString (if targetDB = ''admin'' then '''' else targetDB)))]
                   @ writeConcernPart)]"
  using assms
  by (auto simp: RestoreUsersOrRoles_merge_def Let_def split: cmd_reply.split)

lemma RestoreUsersOrRoles_sends:
  assumes i: "users = Some i \<or> roles = Some i"
    and early: "\<not> (users \<noteq> None \<and> roles \<noteq> None \<and> map_option DB users \<noteq> map_option DB roles)"
    and cl: "client (SessionProvider restore) \<noteq> None"
    and opn: "\<forall>t f. openFile w t f = None"
    and lst: "\<forall>t. \<exists>names. listCollections w t ''admin'' = Inr (map BString names)"
    and drp: "\<forall>t c. dropCollection w t ''admin'' c = None"
    and rst: "\<forall>t c f. restoreCollectionToDB w t ''admin'' c f = None"
    and wc: "(WriteConcern (ToolOptions restore) = None \<and> writeConcernPart = [])
           \<or> (\<exists>wc wcBson writeConcern.
                 WriteConcern (ToolOptions restore) = Some wc
                 \<and> MarshalBSONValue w wc = Inr wcBson
                 \<and> Unmarshal w wcBson = Inr writeConcern
                 \<and> writeConcernPart = [(''writeConcern'', VM writeConcern)])"
  shows "commandsSent (snd (snd (RestoreUsersOrRoles w restore tr users roles)))
           = commandsSent tr
             @ [OpRunCommand ''admin''
                  ((''_mergeAuthzCollections'', V (BInt 1))
                   # map mergeArg (RestoreUsersOrRoles_args restore users roles)
                   @ [(''drop'', V (BBool (Drop (OutputOptions restore)))),
                      (''db'', V (BString (if DB i = ''admin'' then '''' else DB i)))]
                   @ writeConcernPart)]"
proof -
  let ?args = "RestoreUsersOrRoles_args restore users roles"
  let ?res = "RestoreUsersOrRoles w restore tr users roles"
  from i have c1: "(users = None \<and> roles = None) = False" by auto
  from early have c2: "(users \<noteq> None \<and> roles \<noteq> None
      \<and> map_option DB users \<noteq> map_option DB roles) = False" by simp
  from cl obtain session where s: "GetSession (SessionProvider restore) = Inr session"
    by (auto simp: GetSession_def)
  obtain err restore1 tr1 mergeArgs defers db1 where
    loop: "RestoreUsersOrRoles_loop w restore tr [] [] '''' ?args
             = (err, restore1, tr1, mergeArgs, defers, db1)"
    by (cases "RestoreUsersOrRoles_loop w restore tr [] [] '''' ?args") auto
  from RestoreUsersOrRoles_loop_succeeds [OF cl opn lst drp rst, of tr "[]" "[]" "''''" ?args] loop
  have err: "err = None" by simp
  have res: "?res =
      (case RestoreUsersOrRoles_merge w restore1 tr1 mergeArgs db1 of
         (err2, tr2) \<Rightarrow>
           (err2, restore1, RestoreUsersOrRoles_deferred w restore1 tr2 (rev defers)))"
    unfolding RestoreUsersOrRoles_def c1 c2 if_False s sum.case loop prod.case err
    by simp
  from RestoreUsersOrRoles_loop_result [OF loop] err
    RestoreUsersOrRoles_args_last [OF i early, of restore]
  have tr1: "commandsSent tr1 = commandsSent tr"
    and ma: "mergeArgs = map mergeArg ?args" and db1: "db1 = DB i"
    by simp_all
  from RestoreUsersOrRoles_loop_fields [OF loop]
  have oo: "OutputOptions restore1 = OutputOptions restore"
    and topt: "ToolOptions restore1 = ToolOptions restore" by simp_all
  from wc have wc1: "(WriteConcern (ToolOptions restore1) = None \<and> writeConcernPart = [])
           \<or> (\<exists>wc wcBson writeConcern.
                 WriteConcern (ToolOptions restore1) = Some wc
                 \<and> MarshalBSONValue w wc = Inr wcBson
                 \<and> Unmarshal w wcBson = Inr writeConcern
                 \<and> writeConcernPart = [(''writeConcern'', VM writeConcern)])"
    unfolding topt .
  have "commandsSent (snd (snd ?res))
      = commandsSent (snd (RestoreUsersOrRoles_merge w restore1 tr1 mergeArgs db1))"
    by (simp add: res split_beta RestoreUsersOrRoles_deferred_commandsSent)
  also have "\<dots> = commandsSent tr1
             @ [OpRunCommand ''admin''
                  ((''_mergeAuthzCollections'', V (BInt 1)) # mergeArgs
                   @ [(''drop'', V (BBool (Drop (OutputOptions restore1)))),
                      (''db'', V (BString (if db1 = ''admin'' then '''' else db1)))]
                   @ writeConcernPart)]"
    by (rule RestoreUsersOrRoles_merge_sends [OF wc1])
  finally show ?thesis unfolding tr1 ma db1 oo .
qed

text \<open>
  C6. Whatever \<open>RestoreUsersOrRoles\<close> is given (at least one intent \<open>i\<close>), it sends at
  most one command, and a command it sends is \<open>_mergeAuthzCollections\<close>, run against the
  \<open>admin\<close> database, made of the merge arguments of the intents, then \<open>drop\<close> equal to
  the caller's drop option and \<open>db\<close> equal to the database of the intents, or the empty
  string when that database is \<open>admin\<close>, then possibly the write concern. And the command
  is sent: when the intents name one database, the session is available, opening the files,
  listing and dropping collections of \<open>admin\<close> and restoring to the temporary collections
  all succeed, and the write concern is absent or is marshalled and decoded without error,
  the call sends exactly this command, ending with the decoded write concern if there is
  one.
\<close>

theorem RestoreUsersOrRoles_merge_command:
  assumes i: "users = Some i \<or> roles = Some i"
  shows "\<exists>sent. commandsSent (snd (snd (RestoreUsersOrRoles w restore tr users roles)))
             = commandsSent tr @ sent
     \<and> (sent = []
         \<or> (\<exists>writeConcernPart.
               sent = [OpRunCommand ''admin''
                         ((''_mergeAuthzCollections'', V (BInt 1))
                          # map mergeArg (RestoreUsersOrRoles_args restore users roles)
                          @ [(''drop'', V (BBool (Drop (OutputOptions restore)))),
                             (''db'', V (BString (if DB i = ''admin'' then '''' else DB i)))]
                          @ writeConcernPart)]))
     \<and> (\<forall>d cmd. OpRunCommand d cmd \<in> set sent \<longrightarrow>
           d = ''admin''
           \<and> map_of cmd ''drop'' = Some (V (BBool (Drop (OutputOptions restore))))
           \<and> map_of cmd ''db'' = Some (V (BString (if DB i = ''admin'' then '''' else DB i))))
     \<and> (\<forall>writeConcernPart.
           \<not> (users \<noteq> None \<and> roles \<noteq> None \<and> map_option DB users \<noteq> map_option DB roles)
           \<and> client (SessionProvider restore) \<noteq> None
           \<and> (\<forall>t f. openFile w t f = None)
           \<and> (\<forall>t. \<exists>names. listCollections w t ''admin'' = Inr (map BString names))
           \<and> (\<forall>t c. dropCollection w t ''admin'' c = None)
           \<and> (\<forall>t c f. restoreCollectionToDB w t ''admin'' c f = None)
           \<and> ((WriteConcern (ToolOptions restore) = None \<and> writeConcernPart = [])
                \<or> (\<exists>wc wcBson writeConcern.
                      WriteConcern (ToolOptions restore) = Some wc
                      \<and> MarshalBSONValue w wc = Inr wcBson
                      \<and> Unmarshal w wcBson = Inr writeConcern
                      \<and> writeConcernPart = [(''writeConcern'', VM writeConcern)]))
           \<longrightarrow> sent = [OpRunCommand ''admin''
                         ((''_mergeAuthzCollections'', V (BInt 1))
                          # map mergeArg (RestoreUsersOrRoles_args restore users roles)
                          @ [(''drop'', V (BBool (Drop (OutputOptions restore)))),
                             (''db'', V (BString (if DB i = ''admin'' then '''' else DB i)))]
                          @ writeConcernPart)])"
proof -
  from RestoreUsersOrRoles_sent [OF i, of w restore tr]
  obtain sent where sent: "commandsSent (snd (snd (RestoreUsersOrRoles w restore tr users roles)))
             = commandsSent tr @ sent"
    and shape: "sent = []
         \<or> (\<exists>writeConcernPart.
               sent = [OpRunCommand ''admin''
                         ((''_mergeAuthzCollections'', V (BInt 1))
                          # map mergeArg (RestoreUsersOrRoles_args restore users roles)
                          @ [(''drop'', V (BBool (Drop (OutputOptions restore)))),
                             (''db'', V (BString (if DB i = ''admin'' then '''' else DB i)))]
                          @ writeConcernPart)])"
    by (elim exE conjE)
  have fields: "d = ''admin''
           \<and> map_of cmd ''drop'' = Some (V (BBool (Drop (OutputOptions restore))))
           \<and> map_of cmd ''db'' = Some (V (BString (if DB i = ''admin'' then '''' else DB i)))"
    if "OpRunCommand d cmd \<in> set sent" for d cmd
    using shape
  proof (elim disjE exE)
    assume "sent = []"
    with that show ?thesis by simp
  next
    fix writeConcernPart
    assume "sent = [OpRunCommand ''admin''
                         ((''_mergeAuthzCollections'', V (BInt 1))
                          # map mergeArg (RestoreUsersOrRoles_args restore users roles)
                          @ [(''drop'', V (BBool (Drop (OutputOptions restore)))),
                             (''db'', V (BString (if DB i = ''admin'' then '''' else DB i)))]
                          @ writeConcernPart)]"
    with that have "d = ''admin''" and "cmd = (''_mergeAuthzCollections'', V (BInt 1))
                          # map mergeArg (RestoreUsersOrRoles_args restore users roles)
                          @ [(''drop'', V (BBool (Drop (OutputOptions restore)))),
                             (''db'', V (BString (if DB i = ''admin'' then '''' else DB i)))]
                          @ writeConcernPart"
      by simp_all
    then show ?thesis
      using merge_command_fields [of restore users roles "V (BBool (Drop (OutputOptions restore)))"
          "V (BString (if DB i = ''admin'' then '''' else DB i))" writeConcernPart]
      by simp
  qed
  have live: "sent = [OpRunCommand ''admin''
                         ((''_mergeAuthzCollections'', V (BInt 1))
                          # map mergeArg (RestoreUsersOrRoles_args restore users roles)
                          @ [(''drop'', V (BBool (Drop (OutputOptions restore)))),
                             (''db'', V (BString (if DB i = ''admin'' then '''' else DB i)))]
                          @ writeConcernPart)]"
    if "\<not> (users \<noteq> None \<and> roles \<noteq> None \<and> map_option DB users \<noteq> map_option DB roles)
           \<and> client (SessionProvider restore) \<noteq> None
           \<and> (\<forall>t f. openFile w t f = None)
           \<and> (\<forall>t. \<exists>names. listCollections w t ''admin'' = Inr (map BString names))
           \<and> (\<forall>t c. dropCollection w t ''admin'' c = None)
           \<and> (\<forall>t c f. restoreCollectionToDB w t ''admin'' c f = None)
           \<and> ((WriteConcern (ToolOptions restore) = None \<and> writeConcernPart = [])
                \<or> (\<exists>wc wcBson writeConcern.
                      WriteConcern (ToolOptions restore) = Some wc
                      \<and> MarshalBSONValue w wc = Inr wcBson
                      \<and> Unmarshal w wcBson = Inr writeConcern
                      \<and> writeConcernPart = [(''writeConcern'', VM writeConcern)]))"
    for writeConcernPart
  proof -
    note a = that [THEN conjunct1]
    note b = that [THEN conjunct2, THEN conjunct1]
    note c = that [THEN conjunct2, THEN conjunct2, THEN conjunct1]
    note d = that [THEN conjunct2, THEN conjunct2, THEN conjunct2, THEN conjunct1]
    note e = that [THEN conjunct2, THEN conjunct2, THEN conjunct2, THEN conjunct2, THEN conjunct1]
    note f = that [THEN conjunct2, THEN conjunct2, THEN conjunct2, THEN conjunct2, THEN conjunct2,
        THEN conjunct1]
    note g = that [THEN conjunct2, THEN conjunct2, THEN conjunct2, THEN conjunct2, THEN conjunct2,
        THEN conjunct2]
    from RestoreUsersOrRoles_sends [OF i a b c d e f g, of tr]
    show ?thesis unfolding sent by (simp only: same_append_eq)
  qed
  show ?thesis
  proof (intro exI [of _ sent] conjI allI impI)
    show "commandsSent (snd (snd (RestoreUsersOrRoles w restore tr users roles)))
             = commandsSent tr @ sent" by (rule sent)
    show "sent = []
         \<or> (\<exists>writeConcernPart.
               sent = [OpRunCommand ''admin''
                         ((''_mergeAuthzCollections'', V (BInt 1))
                          # map mergeArg (RestoreUsersOrRoles_args restore users roles)
                          @ [(''drop'', V (BBool (Drop (OutputOptions restore)))),
                             (''db'', V (BString (if DB i = ''admin'' then [] else DB i)))]
                          @ writeConcernPart)])" by (rule shape)
  next
    fix d cmd assume "OpRunCommand d cmd \<in> set sent"
    from fields [OF this] show "d = ''admin''"
      and "map_of cmd ''drop'' = Some (V (BBool (Drop (OutputOptions restore))))"
      and "map_of cmd ''db'' = Some (V (BString (if DB i = ''admin'' then [] else DB i)))"
      by simp_all
  next
    fix writeConcernPart
    assume "\<not> (users \<noteq> None \<and> roles \<noteq> None \<and> map_option DB users \<noteq> map_option DB roles)
           \<and> client (SessionProvider restore) \<noteq> None
           \<and> (\<forall>t f. openFile w t f = None)
           \<and> (\<forall>t. \<exists>names. listCollections w t ''admin'' = Inr (map BString names))
           \<and> (\<forall>t c. dropCollection w t ''admin'' c = None)
           \<and> (\<forall>t c f. restoreCollectionToDB w t ''admin'' c f = None)
           \<and> ((WriteConcern (ToolOptions restore) = None \<and> writeConcernPart = [])
                \<or> (\<exists>wc wcBson writeConcern.
                      WriteConcern (ToolOptions restore) = Some wc
                      \<and> MarshalBSONValue w wc = Inr wcBson
                      \<and> Unmarshal w wcBson = Inr writeConcern
                      \<and> writeConcernPart = [(''writeConcern'', VM writeConcern)]))"
    then show "sent = [OpRunCommand ''admin''
                         ((''_mergeAuthzCollections'', V (BInt 1))
                          # map mergeArg (RestoreUsersOrRoles_args restore users roles)
                          @ [(''drop'', V (BBool (Drop (OutputOptions restore)))),
                             (''db'', V (BString (if DB i = ''admin'' then [] else DB i)))]
                          @ writeConcernPart)]"
      by (rule live)
  qed
qed

theorem RestoreUsersOrRoles_merge_command_witness:
  "commandsSent (snd (snd (RestoreUsersOrRoles majorityWorld majorityRestore []
                             (Some shopUsersIntent) (Some shopRolesIntent))))
     = [OpRunCommand ''admin''
          [(''_mergeAuthzCollections'', V (BInt 1)),
           (''tempUsersCollection'', V (BString ''admin.tempusers'')),
           (''tempRolesCollection'', V (BString ''admin.temproles'')),
           (''drop'', V (BBool True)),
           (''db'', V (BString ''shop'')),
           (''writeConcern'', VM [''w'' \<mapsto> BString ''majority''])]]
   \<and> commandsSent (snd (snd (RestoreUsersOrRoles exampleWorld exampleRestore []
                               (Some adminUsersIntent) None)))
     = [OpRunCommand ''admin'' (exampleMergeCommand '''')]
   \<and> map_of (exampleMergeCommand '''') ''drop'' = Some (V (BBool False))
   \<and> map_of (exampleMergeCommand '''') ''db'' = Some (V (BString ''''))"
proof -
  have i1: "Some shopUsersIntent = Some shopUsersIntent \<or> Some shopRolesIntent = Some shopUsersIntent"
    by simp
  have i2: "Some adminUsersIntent = Some adminUsersIntent \<or> (None::Intent option) = Some adminUsersIntent"
    by simp
  from RestoreUsersOrRoles_merge_command [OF i1, of majorityWorld majorityRestore "[]"]
  obtain sent1 where s1:
    "commandsSent (snd (snd (RestoreUsersOrRoles majorityWorld majorityRestore []
         (Some shopUsersIntent) (Some shopRolesIntent)))) = commandsSent [] @ sent1"
    and live1: "\<forall>writeConcernPart.
           \<not> (Some shopUsersIntent \<noteq> None \<and> Some shopRolesIntent \<noteq> None
              \<and> map_option DB (Some shopUsersIntent) \<noteq> map_option DB (Some shopRolesIntent))
           \<and> client (SessionProvider majorityRestore) \<noteq> None
           \<and> (\<forall>t f. openFile majorityWorld t f = None)
           \<and> (\<forall>t. \<exists>names. listCollections majorityWorld t ''admin'' = Inr (map BString names))
           \<and> (\<forall>t c. dropCollection majorityWorld t ''admin'' c = None)
           \<and> (\<forall>t c f. restoreCollectionToDB majorityWorld t ''admin'' c f = None)
           \<and> ((WriteConcern (ToolOptions majorityRestore) = None \<and> writeConcernPart = [])
                \<or> (\<exists>wc wcBson writeConcern.
                      WriteConcern (ToolOptions majorityRestore) = Some wc
                      \<and> MarshalBSONValue majorityWorld wc = Inr wcBson
                      \<and> Unmarshal majorityWorld wcBson = Inr writeConcern
                      \<and> writeConcernPart = [(''writeConcern'', VM writeConcern)]))
           \<longrightarrow> sent1 = [OpRunCommand ''admin''
                         ((''_mergeAuthzCollections'', V (BInt 1))
                          # map mergeArg (RestoreUsersOrRoles_args majorityRestore
                                           (Some shopUsersIntent) (Some shopRolesIntent))
                          @ [(''drop'', V (BBool (Drop (OutputOptions majorityRestore)))),
                             (''db'', V (BString (if DB shopUsersIntent = ''admin'' then ''''
                                                  else DB shopUsersIntent)))]
                          @ writeConcernPart)]"
    by (elim exE conjE)
  have c1: "\<not> (Some shopUsersIntent \<noteq> None \<and> Some shopRolesIntent \<noteq> None
              \<and> map_option DB (Some shopUsersIntent) \<noteq> map_option DB (Some shopRolesIntent))
           \<and> client (SessionProvider majorityRestore) \<noteq> None
           \<and> (\<forall>t f. openFile majorityWorld t f = None)
           \<and> (\<forall>t. \<exists>names. listCollections majorityWorld t ''admin'' = Inr (map BString names))
           \<and> (\<forall>t c. dropCollection majorityWorld t ''admin'' c = None)
           \<and> (\<forall>t c f. restoreCollectionToDB majorityWorld t ''admin'' c f = None)
           \<and> ((WriteConcern (ToolOptions majorityRestore) = None
                  \<and> [(''writeConcern'', VM [''w'' \<mapsto> BString ''majority''])] = [])
                \<or> (\<exists>wc wcBson writeConcern.
                      WriteConcern (ToolOptions majorityRestore) = Some wc
                      \<and> MarshalBSONValue majorityWorld wc = Inr wcBson
                      \<and> Unmarshal majorityWorld wcBson = Inr writeConcern
                      \<and> [(''writeConcern'', VM [''w'' \<mapsto> BString ''majority''])]
                          = [(''writeConcern'', VM writeConcern)]))"
    by (simp add: majorityWorld_def majorityRestore_def exampleWorld_def exampleRestore_def
        shopUsersIntent_def shopRolesIntent_def)
  have a1: "map mergeArg (RestoreUsersOrRoles_args majorityRestore
                            (Some shopUsersIntent) (Some shopRolesIntent))
      = [(''tempUsersCollection'', V (BString ''admin.tempusers'')),
         (''tempRolesCollection'', V (BString ''admin.temproles''))]"
    by (simp add: RestoreUsersOrRoles_args_def mergeArg_def majorityRestore_def exampleRestore_def)
  have d1: "Drop (OutputOptions majorityRestore) = True" "DB shopUsersIntent = ''shop''"
    by (simp_all add: majorityRestore_def shopUsersIntent_def)
  from live1 [rule_format, OF c1] have sent1: "sent1 = [OpRunCommand ''admin''
          [(''_mergeAuthzCollections'', V (BInt 1)),
           (''tempUsersCollection'', V (BString ''admin.tempusers'')),
           (''tempRolesCollection'', V (BString ''admin.temproles'')),
           (''drop'', V (BBool True)),
           (''db'', V (BString ''shop'')),
           (''writeConcern'', VM [''w'' \<mapsto> BString ''majority''])]]"
    unfolding a1 d1 by simp
  from RestoreUsersOrRoles_merge_command [OF i2, of exampleWorld exampleRestore "[]"]
  obtain sent2 where s2:
    "commandsSent (snd (snd (RestoreUsersOrRoles exampleWorld exampleRestore []
         (Some adminUsersIntent) None))) = commandsSent [] @ sent2"
    and fields2: "\<forall>d cmd. OpRunCommand d cmd \<in> set sent2 \<longrightarrow>
           d = ''admin''
           \<and> map_of cmd ''drop'' = Some (V (BBool (Drop (OutputOptions exampleRestore))))
           \<and> map_of cmd ''db'' = Some (V (BString (if DB adminUsersIntent = ''admin'' then ''''
                                                    else DB adminUsersIntent)))"
    and live2: "\<forall>writeConcernPart.
           \<not> (Some adminUsersIntent \<noteq> None \<and> (None::Intent option) \<noteq> None
              \<and> map_option DB (Some adminUsersIntent) \<noteq> map_option DB (None::Intent option))
           \<and> client (SessionProvider exampleRestore) \<noteq> None
           \<and> (\<forall>t f. openFile exampleWorld t f = None)
           \<and> (\<forall>t. \<exists>names. listCollections exampleWorld t ''admin'' = Inr (map BString names))
           \<and> (\<forall>t c. dropCollection exampleWorld t ''admin'' c = None)
           \<and> (\<forall>t c f. restoreCollectionToDB exampleWorld t ''admin'' c f = None)
           \<and> ((WriteConcern (ToolOptions exampleRestore) = None \<and> writeConcernPart = [])
                \<or> (\<exists>wc wcBson writeConcern.
                      WriteConcern (ToolOptions exampleRestore) = Some wc
                      \<and> MarshalBSONValue exampleWorld wc = Inr wcBson
                      \<and> Unmarshal exampleWorld wcBson = Inr writeConcern
                      \<and> writeConcernPart = [(''writeConcern'', VM writeConcern)]))
           \<longrightarrow> sent2 = [OpRunCommand ''admin''
                         ((''_mergeAuthzCollections'', V (BInt 1))
                          # map mergeArg (RestoreUsersOrRoles_args exampleRestore
                                           (Some adminUsersIntent) None)
                          @ [(''drop'', V (BBool (Drop (OutputOptions exampleRestore)))),
                             (''db'', V (BString (if DB adminUsersIntent = ''admin'' then ''''
                                                  else DB adminUsersIntent)))]
                          @ writeConcernPart)]"
    by (elim exE conjE)
  have c2: "\<not> (Some adminUsersIntent \<noteq> None \<and> (None::Intent option) \<noteq> None
              \<and> map_option DB (Some adminUsersIntent) \<noteq> map_option DB (None::Intent option))
           \<and> client (SessionProvider exampleRestore) \<noteq> None
           \<and> (\<forall>t f. openFile exampleWorld t f = None)
           \<and> (\<forall>t. \<exists>names. listCollections exampleWorld t ''admin'' = Inr (map BString names))
           \<and> (\<forall>t c. dropCollection exampleWorld t ''admin'' c = None)
           \<and> (\<forall>t c f. restoreCollectionToDB exampleWorld t ''admin'' c f = None)
           \<and> ((WriteConcern (ToolOptions exampleRestore) = None \<and> ([]::command) = [])
                \<or> (\<exists>wc wcBson writeConcern.
                      WriteConcern (ToolOptions exampleRestore) = Some wc
                      \<and> MarshalBSONValue exampleWorld wc = Inr wcBson
                      \<and> Unmarshal exampleWorld wcBson = Inr writeConcern
                      \<and> ([]::command) = [(''writeConcern'', VM writeConcern)]))"
    by (simp add: exampleWorld_def exampleRestore_def)
  have a2: "map mergeArg (RestoreUsersOrRoles_args exampleRestore (Some adminUsersIntent) None)
      = [(''tempUsersCollection'', V (BString ''admin.tempusers''))]"
    by (simp add: RestoreUsersOrRoles_args_def mergeArg_def exampleRestore_def)
  have d2: "Drop (OutputOptions exampleRestore) = False" "DB adminUsersIntent = ''admin''"
    by (simp_all add: exampleRestore_def adminUsersIntent_def)
  from live2 [rule_format, OF c2]
  have sent2: "sent2 = [OpRunCommand ''admin'' (exampleMergeCommand '''')]"
    unfolding a2 d2 by (simp add: exampleMergeCommand_def)
  then have "OpRunCommand ''admin'' (exampleMergeCommand '''') \<in> set sent2" by simp
  from fields2 [rule_format, OF this]
  have f2: "map_of (exampleMergeCommand '''') ''drop'' = Some (V (BBool False))"
    "map_of (exampleMergeCommand '''') ''db'' = Some (V (BString ''''))"
    unfolding d2 by simp_all
  from s1 sent1 s2 sent2 f2 show ?thesis by simp
qed

text \<open>
  C1. A users intent whose file has size 0 is not skipped. The run on such an intent (every
  operation succeeding) logs that the file is empty and that restoration is skipped, and
  then goes on as for any other file: it restores the file to the temporary collection
  \<open>admin.tempusers\<close> and passes \<open>tempUsersCollection\<close> to the merge command.
\<close>

theorem RestoreUsersOrRoles_empty_users_file:
  "RestoreUsersOrRoles exampleWorld exampleRestore [] (Some emptyUsersIntent) None =
     (None, exampleRestore,
      [Logv Always (''users file '' @ [CHR 0x27] @ ''dump/admin/system.users.bson'' @ [CHR 0x27]
                    @ '' is empty; skipping users restoration''),
       Logv Always ''restoring users from dump/admin/system.users.bson'',
       OpOpen ''dump/admin/system.users.bson'',
       OpListCollections ''admin'',
       Logv DebugLow ''restoring users to temporary collection'',
       OpRestoreCollectionToDB ''admin'' ''tempusers'' ''dump/admin/system.users.bson'',
       Logv DebugLow ''merging users/roles from temp collections'',
       OpRunCommand ''admin''
         [(''_mergeAuthzCollections'', V (BInt 1)),
          (''tempUsersCollection'', V (BString ''admin.tempusers'')),
          (''drop'', V (BBool False)),
          (''db'', V (BString ''''))],
       Logv DebugHigh ''dropping temporary collection admin.tempusers'',
       OpDrop ''admin'' ''tempusers'',
       OpSourceClose ''dump/admin/system.users.bson'',
       OpClose ''dump/admin/system.users.bson''])"
  by (simp add: RestoreUsersOrRoles_users_only_run emptyUsersIntent_def)

section \<open>Index creation\<close>

subsection \<open>The loops of \<open>CreateIndexes\<close>\<close>

lemma sanitized_eq:
  "sanitized restore dbName collectionName index =
     (if \<not> KeepIndexVersion (OutputOptions restore)
      then index\<lparr>Options := ((Options index)(''ns'' \<mapsto> BString (dbName @ ''.'' @ collectionName)))(''v'' := None)\<rparr>
      else index\<lparr>Options := (Options index)(''ns'' \<mapsto> BString (dbName @ ''.'' @ collectionName))\<rparr>)"
  by (auto simp: sanitized_def fun_eq_iff intro!: arg_cong2[where f="\<lambda>a b. Options_update a b"])

lemma CreateIndexes_sanitize_Cons:
  "CreateIndexes_sanitize w restore dbName collectionName (index # rest) =
     (if LT (serverVersion restore) (4, 2, 0) \<and> length (fullIndexName w dbName collectionName index) > 127
      then (Some (NamespaceTooLong (fullIndexName w dbName collectionName index)),
            index\<lparr>Options := (Options index)(''ns'' \<mapsto> BString (dbName @ ''.'' @ collectionName))\<rparr> # rest, [])
      else if nameIsString index
      then (case CreateIndexes_sanitize w restore dbName collectionName rest of
              (err, rest', indexNames) \<Rightarrow>
                (err, sanitized restore dbName collectionName index # rest',
                 Sprint_v w (Options index ''name'') # indexNames))
      else (Some (ExpectedNameToBeString (Options index ''name'')),
            index\<lparr>Options := (Options index)(''ns'' \<mapsto> BString (dbName @ ''.'' @ collectionName))\<rparr> # rest, []))"
  by (auto simp: Let_def fullIndexName_def nameIsString_def sanitized_eq Sprint_v_def
      split: option.splits bson.splits)

lemma CreateIndexes_sanitize_None:
  "CreateIndexes_sanitize w restore dbName collectionName indexes = (None, indexes', indexNames)
   \<Longrightarrow> indexes' = map (sanitized restore dbName collectionName) indexes
       \<and> indexNames = map (\<lambda>index. Sprint_v w (Options index ''name'')) indexes"
proof (induction indexes arbitrary: indexes' indexNames)
  case Nil
  then show ?case by simp
next
  case (Cons index rest)
  from Cons.prems show ?case
    unfolding CreateIndexes_sanitize_Cons
    by (auto split: if_splits prod.splits dest: Cons.IH)
qed

lemma CreateIndexes_sanitize_ok_iff:
  "fst (CreateIndexes_sanitize w restore dbName collectionName indexes) = None
   \<longleftrightarrow> (\<forall>index \<in> set indexes. acceptable w restore dbName collectionName index)"
proof (induction indexes)
  case Nil
  then show ?case by simp
next
  case (Cons index rest)
  then show ?case
    unfolding CreateIndexes_sanitize_Cons
    by (auto simp: acceptable_def split: prod.splits)
qed

lemma CreateIndexes_sanitize_acceptable:
  assumes "\<forall>index \<in> set indexes. acceptable w restore dbName collectionName index"
  shows "CreateIndexes_sanitize w restore dbName collectionName indexes =
           (None, map (sanitized restore dbName collectionName) indexes,
            map (\<lambda>index. Sprint_v w (Options index ''name'')) indexes)"
proof -
  from assms have "fst (CreateIndexes_sanitize w restore dbName collectionName indexes) = None"
    by (simp add: CreateIndexes_sanitize_ok_iff)
  then obtain indexes' indexNames where
    eq: "CreateIndexes_sanitize w restore dbName collectionName indexes = (None, indexes', indexNames)"
    by (cases "CreateIndexes_sanitize w restore dbName collectionName indexes") auto
  from CreateIndexes_sanitize_None [OF eq] eq show ?thesis by simp
qed

lemma withoutLogs_append [simp]: "withoutLogs (a @ b) = withoutLogs a @ withoutLogs b"
  by (simp add: withoutLogs_def)

lemma withoutLogs_simps [simp]:
  "withoutLogs [] = []"
  "withoutLogs (Logv level msg # tr) = withoutLogs tr"
  "withoutLogs (OpRunCommand d c # tr) = OpRunCommand d c # withoutLogs tr"
  "withoutLogs (OpInsertOne d coll doc # tr) = OpInsertOne d coll doc # withoutLogs tr"
  by (simp_all add: withoutLogs_def isLog_def)


lemma LegacyInsertIndex_cases:
  "LegacyInsertIndex w restore tr dbName idx = (None, tr @ [OpInsertOne dbName ''system.indexes'' idx])
   \<or> (\<exists>e. LegacyInsertIndex w restore tr dbName idx = (Some e, tr))
   \<or> (\<exists>e. LegacyInsertIndex w restore tr dbName idx
            = (Some e, tr @ [OpInsertOne dbName ''system.indexes'' idx]))"
  by (simp add: LegacyInsertIndex_def split: sum.split option.split)

lemma CreateIndexes_legacy_Cons:
  "CreateIndexes_legacy w restore tr dbName (idx # rest) =
     (case LegacyInsertIndex w restore
             (tr @ [Logv Info (CHR 0x09 # ''manually creating index '' @ Sprint_v w (Options idx ''name''))])
             dbName idx of
        (Some err, tr2) \<Rightarrow> (Some (ErrorCreatingIndex (Options idx ''name'') err), tr2)
      | (None, tr2) \<Rightarrow> CreateIndexes_legacy w restore tr2 dbName rest)"
  by (simp add: Let_def)

lemma CreateIndexes_legacy_trace:
  "\<exists>k new. k \<le> length indexes
     \<and> snd (CreateIndexes_legacy w restore tr dbName indexes) = tr @ new
     \<and> withoutLogs new = map (OpInsertOne dbName ''system.indexes'') (take k indexes)
     \<and> (fst (CreateIndexes_legacy w restore tr dbName indexes) = None \<longrightarrow> k = length indexes)"
proof (induction indexes arbitrary: tr)
  case Nil
  show ?case by (intro exI [of _ 0] exI [of _ "[]"]) simp
next
  case (Cons idx rest)
  define lg where "lg = Logv Info (CHR 0x09 # ''manually creating index '' @ Sprint_v w (Options idx ''name''))"
  define ins where "ins = OpInsertOne dbName ''system.indexes''"
  have wl: "withoutLogs (lg # t) = withoutLogs t" for t by (simp add: lg_def)
  have wi: "withoutLogs (ins idx # t) = ins idx # withoutLogs t" for t
    by (simp add: ins_def)
  have step: "CreateIndexes_legacy w restore tr dbName (idx # rest) =
     (case LegacyInsertIndex w restore (tr @ [lg]) dbName idx of
        (Some err, tr2) \<Rightarrow> (Some (ErrorCreatingIndex (Options idx ''name'') err), tr2)
      | (None, tr2) \<Rightarrow> CreateIndexes_legacy w restore tr2 dbName rest)"
    unfolding lg_def by (rule CreateIndexes_legacy_Cons)
  have cases: "LegacyInsertIndex w restore (tr @ [lg]) dbName idx = (None, (tr @ [lg]) @ [ins idx])
     \<or> (\<exists>e. LegacyInsertIndex w restore (tr @ [lg]) dbName idx = (Some e, tr @ [lg]))
     \<or> (\<exists>e. LegacyInsertIndex w restore (tr @ [lg]) dbName idx = (Some e, (tr @ [lg]) @ [ins idx]))"
    unfolding ins_def by (rule LegacyInsertIndex_cases)
  have IH: "\<exists>k new. k \<le> length rest
     \<and> snd (CreateIndexes_legacy w restore t dbName rest) = t @ new
     \<and> withoutLogs new = map ins (take k rest)
     \<and> (fst (CreateIndexes_legacy w restore t dbName rest) = None \<longrightarrow> k = length rest)" for t
    unfolding ins_def by (rule Cons.IH)
  have goal: "\<exists>k new. k \<le> length (idx # rest)
     \<and> snd (CreateIndexes_legacy w restore tr dbName (idx # rest)) = tr @ new
     \<and> withoutLogs new = map ins (take k (idx # rest))
     \<and> (fst (CreateIndexes_legacy w restore tr dbName (idx # rest)) = None \<longrightarrow> k = length (idx # rest))"
    using cases
  proof (elim disjE exE)
    assume ok: "LegacyInsertIndex w restore (tr @ [lg]) dbName idx = (None, (tr @ [lg]) @ [ins idx])"
    from IH [of "(tr @ [lg]) @ [ins idx]"] obtain k new where k: "k \<le> length rest
      \<and> snd (CreateIndexes_legacy w restore ((tr @ [lg]) @ [ins idx]) dbName rest) = ((tr @ [lg]) @ [ins idx]) @ new
      \<and> withoutLogs new = map ins (take k rest)
      \<and> (fst (CreateIndexes_legacy w restore ((tr @ [lg]) @ [ins idx]) dbName rest) = None
        \<longrightarrow> k = length rest)" by (elim exE)
    show ?thesis
    proof (intro exI [of _ "Suc k"] exI [of _ "[lg] @ [ins idx] @ new"] conjI)
      show "Suc k \<le> length (idx # rest)" using k by simp
      show "snd (CreateIndexes_legacy w restore tr dbName (idx # rest)) = tr @ [lg] @ [ins idx] @ new"
        unfolding step ok using k by simp
      show "withoutLogs ([lg] @ [ins idx] @ new) = map ins (take (Suc k) (idx # rest))"
        using k by (simp add: wl wi)
      show "fst (CreateIndexes_legacy w restore tr dbName (idx # rest)) = None
        \<longrightarrow> Suc k = length (idx # rest)"
        unfolding step ok using k by simp
    qed
  next
    fix e assume nosession: "LegacyInsertIndex w restore (tr @ [lg]) dbName idx = (Some e, tr @ [lg])"
    show ?thesis
    proof (intro exI [of _ "0"] exI [of _ "[lg]"] conjI)
      show "0 \<le> length (idx # rest)" by simp
      show "snd (CreateIndexes_legacy w restore tr dbName (idx # rest)) = tr @ [lg]"
        unfolding step nosession by simp
      show "withoutLogs [lg] = map ins (take 0 (idx # rest))"
        by (simp add: wl)
      show "fst (CreateIndexes_legacy w restore tr dbName (idx # rest)) = None
        \<longrightarrow> 0 = length (idx # rest)"
        unfolding step nosession by simp
    qed
  next
    fix e assume failed: "LegacyInsertIndex w restore (tr @ [lg]) dbName idx = (Some e, (tr @ [lg]) @ [ins idx])"
    show ?thesis
    proof (intro exI [of _ "Suc 0"] exI [of _ "[lg] @ [ins idx]"] conjI)
      show "Suc 0 \<le> length (idx # rest)" by simp
      show "snd (CreateIndexes_legacy w restore tr dbName (idx # rest)) = tr @ [lg] @ [ins idx]"
        unfolding step failed by simp
      show "withoutLogs ([lg] @ [ins idx]) = map ins (take (Suc 0) (idx # rest))"
        by (simp add: wl wi)
      show "fst (CreateIndexes_legacy w restore tr dbName (idx # rest)) = None
        \<longrightarrow> Suc 0 = length (idx # rest)"
        unfolding step failed by simp
    qed
  qed
  then show ?case unfolding ins_def .
qed

lemma CreateIndexes_legacy_succeeds:
  assumes "client (SessionProvider restore) \<noteq> None"
    and "\<And>t doc. insertOne w t dbName ''system.indexes'' doc = None"
  shows "fst (CreateIndexes_legacy w restore tr dbName indexes) = None"
proof (induction indexes arbitrary: tr)
  case Nil
  then show ?case by simp
next
  case (Cons idx rest)
  from assms have "LegacyInsertIndex w restore t dbName idx
      = (None, t @ [OpInsertOne dbName ''system.indexes'' idx])" for t
    by (auto simp: LegacyInsertIndex_def GetSession_def)
  then show ?case
    unfolding CreateIndexes_legacy_Cons using Cons.IH by simp
qed

lemma CreateIndexes_acceptable:
  assumes acc: "\<forall>index \<in> set indexes. acceptable w restore dbName collectionName index"
    and cl: "client (SessionProvider restore) \<noteq> None"
  shows "CreateIndexes w restore tr dbName collectionName indexes =
     (case Err (runCommand w (createIndexesLogged w tr indexes) dbName
                  (createIndexesCommand restore dbName collectionName indexes)) of
        None \<Rightarrow> (None, map (sanitized restore dbName collectionName) indexes,
                 createIndexesLogged w tr indexes
                 @ [OpRunCommand dbName (createIndexesCommand restore dbName collectionName indexes)])
      | Some msg \<Rightarrow>
          if msg \<noteq> ''no such cmd: createIndexes''
          then (Some (CreateIndexError (External msg)),
                map (sanitized restore dbName collectionName) indexes,
                createIndexesLogged w tr indexes
                @ [OpRunCommand dbName (createIndexesCommand restore dbName collectionName indexes)])
          else
            (fst (CreateIndexes_legacy w restore
                    (createIndexesLogged w tr indexes
                     @ [OpRunCommand dbName (createIndexesCommand restore dbName collectionName indexes)]
                     @ [Logv Info (CHR 0x09 #
                          ''createIndexes command not supported, attemping legacy index insertion'')])
                    dbName (map (sanitized restore dbName collectionName) indexes)),
             map (sanitized restore dbName collectionName) indexes,
             snd (CreateIndexes_legacy w restore
                    (createIndexesLogged w tr indexes
                     @ [OpRunCommand dbName (createIndexesCommand restore dbName collectionName indexes)]
                     @ [Logv Info (CHR 0x09 #
                          ''createIndexes command not supported, attemping legacy index insertion'')])
                    dbName (map (sanitized restore dbName collectionName) indexes))))"
proof -
  from cl obtain c where c: "client (SessionProvider restore) = Some c" by auto
  have cmd: "createIndexesCommand restore dbName collectionName indexes =
      (if GTE (serverVersion restore) (4, 1, 9)
       then [(''createIndexes'', V (BString collectionName)),
             (''indexes'', VIndexes (map (sanitized restore dbName collectionName) indexes))]
            @ [(''ignoreUnknownIndexOptions'', V (BBool True))]
       else [(''createIndexes'', V (BString collectionName)),
             (''indexes'', VIndexes (map (sanitized restore dbName collectionName) indexes))])"
    by (simp add: createIndexesCommand_def)
  show ?thesis
    unfolding CreateIndexes_def CreateIndexes_sanitize_acceptable [OF acc] GetSession_def c
      prod.case option.case sum.case Let_def cmd [symmetric] createIndexesLogged_def [symmetric]
    by (simp add: split_beta split: option.split)
qed

lemma CreateIndexes_rejected:
  assumes "\<not> (\<forall>index \<in> set indexes. acceptable w restore dbName collectionName index)"
  shows "fst (CreateIndexes w restore tr dbName collectionName indexes) \<noteq> None
         \<and> snd (snd (CreateIndexes w restore tr dbName collectionName indexes)) = tr"
proof -
  from assms have "fst (CreateIndexes_sanitize w restore dbName collectionName indexes) \<noteq> None"
    by (simp add: CreateIndexes_sanitize_ok_iff)
  then obtain err indexes' indexNames where
    "CreateIndexes_sanitize w restore dbName collectionName indexes = (Some err, indexes', indexNames)"
    by (cases "CreateIndexes_sanitize w restore dbName collectionName indexes") auto
  then show ?thesis by (simp add: CreateIndexes_def)
qed

lemma CreateIndexes_shape:
  assumes acc: "\<forall>index \<in> set indexes. acceptable w restore dbName collectionName index"
    and cl: "client (SessionProvider restore) \<noteq> None"
  shows "\<exists>k new. k \<le> length indexes
     \<and> snd (snd (CreateIndexes w restore tr dbName collectionName indexes)) = tr @ new
     \<and> withoutLogs new =
         OpRunCommand dbName (createIndexesCommand restore dbName collectionName indexes)
         # map (OpInsertOne dbName ''system.indexes'')
             (take k (map (sanitized restore dbName collectionName) indexes))
     \<and> (Err (runCommand w (createIndexesLogged w tr indexes) dbName
                (createIndexesCommand restore dbName collectionName indexes))
          \<noteq> Some ''no such cmd: createIndexes'' \<longrightarrow> k = 0)
     \<and> (Err (runCommand w (createIndexesLogged w tr indexes) dbName
                (createIndexesCommand restore dbName collectionName indexes)) = None
          \<longrightarrow> fst (CreateIndexes w restore tr dbName collectionName indexes) = None)
     \<and> (Err (runCommand w (createIndexesLogged w tr indexes) dbName
                (createIndexesCommand restore dbName collectionName indexes))
          = Some ''no such cmd: createIndexes''
          \<and> fst (CreateIndexes w restore tr dbName collectionName indexes) = None
          \<longrightarrow> k = length indexes)"
proof -
  define cmd where "cmd = OpRunCommand dbName (createIndexesCommand restore dbName collectionName indexes)"
  define reply where "reply = Err (runCommand w (createIndexesLogged w tr indexes) dbName
                (createIndexesCommand restore dbName collectionName indexes))"
  define nosuch where "nosuch = ''no such cmd: createIndexes''"
  define sidx where "sidx = map (sanitized restore dbName collectionName) indexes"
  define ins where "ins = OpInsertOne dbName ''system.indexes''"
  define lg1 where "lg1 = Logv Info (CHR 0x09 #
                          ''createIndexes command not supported, attemping legacy index insertion'')"
  obtain lg0 where lg0: "createIndexesLogged w tr indexes = tr @ [lg0]" "withoutLogs [lg0] = []"
    by (simp add: createIndexesLogged_def)
  have wl1: "withoutLogs (lg1 # t) = withoutLogs t" for t by (simp add: lg1_def)
  have wc: "withoutLogs (cmd # t) = cmd # withoutLogs t" for t by (simp add: cmd_def)
  have wl0: "withoutLogs (lg0 # t) = withoutLogs t" for t
    using lg0(2) withoutLogs_append [of "[lg0]" t] by simp
  have eq: "CreateIndexes w restore tr dbName collectionName indexes =
     (case reply of
        None \<Rightarrow> (None, sidx, tr @ [lg0] @ [cmd])
      | Some msg \<Rightarrow>
          if msg \<noteq> nosuch
          then (Some (CreateIndexError (External msg)), sidx, tr @ [lg0] @ [cmd])
          else (fst (CreateIndexes_legacy w restore (tr @ [lg0] @ [cmd] @ [lg1]) dbName sidx),
                sidx,
                snd (CreateIndexes_legacy w restore (tr @ [lg0] @ [cmd] @ [lg1]) dbName sidx)))"
    unfolding CreateIndexes_acceptable [OF acc cl] lg0(1) cmd_def reply_def nosuch_def sidx_def lg1_def
    by (simp split: option.split)
  have goal: "\<exists>k new. k \<le> length indexes
     \<and> snd (snd (CreateIndexes w restore tr dbName collectionName indexes)) = tr @ new
     \<and> withoutLogs new = cmd # map ins (take k sidx)
     \<and> (reply \<noteq> Some nosuch \<longrightarrow> k = 0)
     \<and> (reply = None \<longrightarrow> fst (CreateIndexes w restore tr dbName collectionName indexes) = None)
     \<and> (reply = Some nosuch \<and> fst (CreateIndexes w restore tr dbName collectionName indexes) = None
          \<longrightarrow> k = length indexes)"
  proof (cases "reply = Some nosuch")
    case False
    show ?thesis
    proof (intro exI [of _ 0] exI [of _ "[lg0] @ [cmd]"] conjI)
      show "0 \<le> length indexes" by simp
      show "snd (snd (CreateIndexes w restore tr dbName collectionName indexes)) = tr @ [lg0] @ [cmd]"
        unfolding eq using False by (cases reply) auto
      show "withoutLogs ([lg0] @ [cmd]) = cmd # map ins (take 0 sidx)"
        by (simp add: wl0 wc)
      show "reply \<noteq> Some nosuch \<longrightarrow> 0 = 0" by simp
      show "reply = None \<longrightarrow> fst (CreateIndexes w restore tr dbName collectionName indexes) = None"
        unfolding eq by simp
      show "reply = Some nosuch \<and> fst (CreateIndexes w restore tr dbName collectionName indexes) = None
          \<longrightarrow> 0 = length indexes"
        using False by simp
    qed
  next
    case True
    from CreateIndexes_legacy_trace [of sidx w restore "tr @ [lg0] @ [cmd] @ [lg1]" dbName]
    obtain k new where k: "k \<le> length sidx
     \<and> snd (CreateIndexes_legacy w restore (tr @ [lg0] @ [cmd] @ [lg1]) dbName sidx)
         = (tr @ [lg0] @ [cmd] @ [lg1]) @ new
     \<and> withoutLogs new = map ins (take k sidx)
     \<and> (fst (CreateIndexes_legacy w restore (tr @ [lg0] @ [cmd] @ [lg1]) dbName sidx) = None
          \<longrightarrow> k = length sidx)"
      unfolding ins_def by (elim exE)
    show ?thesis
    proof (intro exI [of _ k] exI [of _ "[lg0] @ [cmd] @ [lg1] @ new"] conjI)
      show "k \<le> length indexes" using k by (simp add: sidx_def)
      show "snd (snd (CreateIndexes w restore tr dbName collectionName indexes))
              = tr @ [lg0] @ [cmd] @ [lg1] @ new"
        unfolding eq True using k by simp
      show "withoutLogs ([lg0] @ [cmd] @ [lg1] @ new) = cmd # map ins (take k sidx)"
        using k by (simp add: wl0 wc wl1)
      show "reply \<noteq> Some nosuch \<longrightarrow> k = 0" using True by simp
      show "reply = None \<longrightarrow> fst (CreateIndexes w restore tr dbName collectionName indexes) = None"
        using True by simp
      show "reply = Some nosuch \<and> fst (CreateIndexes w restore tr dbName collectionName indexes) = None
          \<longrightarrow> k = length indexes"
        unfolding eq True using k by (simp add: sidx_def)
    qed
  qed
  then show ?thesis
    unfolding cmd_def reply_def nosuch_def sidx_def ins_def .
qed

lemma CreateIndexes_all_inserted:
  assumes acc: "\<forall>index \<in> set indexes. acceptable w restore dbName collectionName index"
    and cl: "client (SessionProvider restore) \<noteq> None"
    and reply: "Err (runCommand w (createIndexesLogged w tr indexes) dbName
                (createIndexesCommand restore dbName collectionName indexes))
          = Some ''no such cmd: createIndexes''"
    and ins: "\<And>t doc. insertOne w t dbName ''system.indexes'' doc = None"
  shows "fst (CreateIndexes w restore tr dbName collectionName indexes) = None"
  unfolding CreateIndexes_acceptable [OF acc cl] reply
  using CreateIndexes_legacy_succeeds [OF cl ins] by simp


lemma exampleIndex_acceptable:
  "\<forall>index \<in> set [exampleIndex]. acceptable w exampleRestore ''shop'' ''orders'' index"
  by (simp add: acceptable_def nameIsString_def exampleIndex_def fullIndexName_def Sprint_v_def)

lemma example_client: "client (SessionProvider exampleRestore) \<noteq> None"
  by (simp add: exampleRestore_def)

subsection \<open>The command sent\<close>

text \<open>
  C3. \<open>CreateIndexes\<close> sends one \<open>createIndexes\<close> command per call, for the collection
  and over all its index documents; the command carries \<open>ignoreUnknownIndexOptions: true\<close>
  exactly when the server version is at least 4.1.9. When the server version is below 4.2.0
  and some index has a fully-qualified name \<open>db.collection.$name\<close> longer than 127 bytes,
  the call returns an error and the trace is unchanged: nothing is sent. When every index is
  accepted and the session is available, what the call sends is the command, followed by
  inserts of the first \<open>k\<close> index documents, one at a time, into the database's
  \<open>system.indexes\<close>; \<open>k\<close> is 0 unless the server answered that \<open>createIndexes\<close>
  is no such command, and in that case a call that returns nil has inserted all of them, as
  it does whenever no insert fails.
\<close>

theorem CreateIndexes_one_command:
  "(LT (serverVersion restore) (4, 2, 0)
      \<and> (\<exists>index \<in> set indexes. 127 < length (fullIndexName w dbName collectionName index)) \<longrightarrow>
      fst (CreateIndexes w restore tr dbName collectionName indexes) \<noteq> None
      \<and> snd (snd (CreateIndexes w restore tr dbName collectionName indexes)) = tr)
   \<and> ((\<forall>index \<in> set indexes. acceptable w restore dbName collectionName index)
       \<and> client (SessionProvider restore) \<noteq> None \<longrightarrow>
       (\<exists>k new. k \<le> length indexes
          \<and> snd (snd (CreateIndexes w restore tr dbName collectionName indexes)) = tr @ new
          \<and> withoutLogs new =
              OpRunCommand dbName (createIndexesCommand restore dbName collectionName indexes)
              # map (OpInsertOne dbName ''system.indexes'')
                  (take k (map (sanitized restore dbName collectionName) indexes))
          \<and> (Err (runCommand w (createIndexesLogged w tr indexes) dbName
                     (createIndexesCommand restore dbName collectionName indexes))
               \<noteq> Some ''no such cmd: createIndexes'' \<longrightarrow> k = 0)
          \<and> (Err (runCommand w (createIndexesLogged w tr indexes) dbName
                     (createIndexesCommand restore dbName collectionName indexes)) = None
               \<longrightarrow> fst (CreateIndexes w restore tr dbName collectionName indexes) = None)
          \<and> (Err (runCommand w (createIndexesLogged w tr indexes) dbName
                     (createIndexesCommand restore dbName collectionName indexes))
               = Some ''no such cmd: createIndexes''
               \<and> fst (CreateIndexes w restore tr dbName collectionName indexes) = None
               \<longrightarrow> k = length indexes))
       \<and> (Err (runCommand w (createIndexesLogged w tr indexes) dbName
                  (createIndexesCommand restore dbName collectionName indexes))
            = Some ''no such cmd: createIndexes''
            \<and> (\<forall>t doc. insertOne w t dbName ''system.indexes'' doc = None)
            \<longrightarrow> fst (CreateIndexes w restore tr dbName collectionName indexes) = None))
   \<and> createIndexesCommand restore dbName collectionName indexes =
       (''createIndexes'', V (BString collectionName))
       # (''indexes'', VIndexes (map (sanitized restore dbName collectionName) indexes))
       # (if GTE (serverVersion restore) (4, 1, 9)
          then [(''ignoreUnknownIndexOptions'', V (BBool True))] else [])"
proof (intro conjI impI)
  assume "LT (serverVersion restore) (4, 2, 0)
      \<and> (\<exists>index \<in> set indexes. 127 < length (fullIndexName w dbName collectionName index))"
  then have "\<not> (\<forall>index \<in> set indexes. acceptable w restore dbName collectionName index)"
    by (auto simp: acceptable_def)
  from CreateIndexes_rejected [OF this]
  show "fst (CreateIndexes w restore tr dbName collectionName indexes) \<noteq> None"
    and "snd (snd (CreateIndexes w restore tr dbName collectionName indexes)) = tr"
    by simp_all
next
  assume "(\<forall>index \<in> set indexes. acceptable w restore dbName collectionName index)
       \<and> client (SessionProvider restore) \<noteq> None"
  then show "\<exists>k new. k \<le> length indexes
          \<and> snd (snd (CreateIndexes w restore tr dbName collectionName indexes)) = tr @ new
          \<and> withoutLogs new =
              OpRunCommand dbName (createIndexesCommand restore dbName collectionName indexes)
              # map (OpInsertOne dbName ''system.indexes'')
                  (take k (map (sanitized restore dbName collectionName) indexes))
          \<and> (Err (runCommand w (createIndexesLogged w tr indexes) dbName
                     (createIndexesCommand restore dbName collectionName indexes))
               \<noteq> Some ''no such cmd: createIndexes'' \<longrightarrow> k = 0)
          \<and> (Err (runCommand w (createIndexesLogged w tr indexes) dbName
                     (createIndexesCommand restore dbName collectionName indexes)) = None
               \<longrightarrow> fst (CreateIndexes w restore tr dbName collectionName indexes) = None)
          \<and> (Err (runCommand w (createIndexesLogged w tr indexes) dbName
                     (createIndexesCommand restore dbName collectionName indexes))
               = Some ''no such cmd: createIndexes''
               \<and> fst (CreateIndexes w restore tr dbName collectionName indexes) = None
               \<longrightarrow> k = length indexes)"
    using CreateIndexes_shape by simp
next
  assume a: "(\<forall>index \<in> set indexes. acceptable w restore dbName collectionName index)
       \<and> client (SessionProvider restore) \<noteq> None"
    and b: "Err (runCommand w (createIndexesLogged w tr indexes) dbName
                  (createIndexesCommand restore dbName collectionName indexes))
            = Some ''no such cmd: createIndexes''
            \<and> (\<forall>t doc. insertOne w t dbName ''system.indexes'' doc = None)"
  show "fst (CreateIndexes w restore tr dbName collectionName indexes) = None"
    by (rule CreateIndexes_all_inserted) (use a b in simp_all)
next
  show "createIndexesCommand restore dbName collectionName indexes =
       (''createIndexes'', V (BString collectionName))
       # (''indexes'', VIndexes (map (sanitized restore dbName collectionName) indexes))
       # (if GTE (serverVersion restore) (4, 1, 9)
          then [(''ignoreUnknownIndexOptions'', V (BBool True))] else [])"
    by (simp add: createIndexesCommand_def)
qed

theorem CreateIndexes_one_command_witness:
  "fst (CreateIndexes exampleWorld exampleRestore [] ''shop'' ''orders'' [exampleIndex, longNameIndex])
     \<noteq> None
   \<and> snd (snd (CreateIndexes exampleWorld exampleRestore [] ''shop'' ''orders''
                 [exampleIndex, longNameIndex])) = []
   \<and> fst (CreateIndexes exampleWorld exampleRestore [] ''shop'' ''orders'' [exampleIndex]) = None
   \<and> withoutLogs (snd (snd (CreateIndexes exampleWorld exampleRestore [] ''shop'' ''orders''
                              [exampleIndex])))
       = [OpRunCommand ''shop''
            [(''createIndexes'', V (BString ''orders'')),
             (''indexes'', VIndexes [sanitized exampleRestore ''shop'' ''orders'' exampleIndex])]]
   \<and> fst (CreateIndexes legacyWorld exampleRestore [] ''shop'' ''orders'' [exampleIndex]) = None
   \<and> withoutLogs (snd (snd (CreateIndexes legacyWorld exampleRestore [] ''shop'' ''orders''
                              [exampleIndex])))
       = [OpRunCommand ''shop''
            [(''createIndexes'', V (BString ''orders'')),
             (''indexes'', VIndexes [sanitized exampleRestore ''shop'' ''orders'' exampleIndex])],
          OpInsertOne ''shop'' ''system.indexes'' (sanitized exampleRestore ''shop'' ''orders'' exampleIndex)]"
proof -
  have long: "LT (serverVersion exampleRestore) (4, 2, 0)
      \<and> (\<exists>index \<in> set [exampleIndex, longNameIndex].
            127 < length (fullIndexName exampleWorld ''shop'' ''orders'' index))"
    by (simp add: exampleRestore_def LT_def fullIndexName_def longNameIndex_def Sprint_v_def)
  have cmd: "createIndexesCommand exampleRestore ''shop'' ''orders'' [exampleIndex] =
      [(''createIndexes'', V (BString ''orders'')),
       (''indexes'', VIndexes [sanitized exampleRestore ''shop'' ''orders'' exampleIndex])]"
    by (simp add: createIndexesCommand_def exampleRestore_def GTE_def)
  have ok: "Err (runCommand exampleWorld t d c) = None" for t d c
    by (simp add: exampleWorld_def Err_def)
  have nosuch: "Err (runCommand legacyWorld t d c) = Some ''no such cmd: createIndexes''" for t d c
    by (simp add: legacyWorld_def exampleWorld_def Err_def)
  have ins: "\<forall>t doc. insertOne legacyWorld t ''shop'' ''system.indexes'' doc = None"
    by (simp add: legacyWorld_def exampleWorld_def)
  note T1 = CreateIndexes_one_command [where w = exampleWorld and restore = exampleRestore
      and tr = "[]" and dbName = "''shop''" and collectionName = "''orders''"
      and indexes = "[exampleIndex, longNameIndex]"]
  note T2 = CreateIndexes_one_command [where w = exampleWorld and restore = exampleRestore
      and tr = "[]" and dbName = "''shop''" and collectionName = "''orders''"
      and indexes = "[exampleIndex]"]
  note T3 = CreateIndexes_one_command [where w = legacyWorld and restore = exampleRestore
      and tr = "[]" and dbName = "''shop''" and collectionName = "''orders''"
      and indexes = "[exampleIndex]"]
  have hyp2: "(\<forall>index \<in> set [exampleIndex]. acceptable exampleWorld exampleRestore ''shop'' ''orders'' index)
       \<and> client (SessionProvider exampleRestore) \<noteq> None"
    using exampleIndex_acceptable [of exampleWorld] example_client by simp
  have hyp3: "(\<forall>index \<in> set [exampleIndex]. acceptable legacyWorld exampleRestore ''shop'' ''orders'' index)
       \<and> client (SessionProvider exampleRestore) \<noteq> None"
    using exampleIndex_acceptable [of legacyWorld] example_client by simp
  have A: "fst (CreateIndexes exampleWorld exampleRestore [] ''shop'' ''orders''
        [exampleIndex, longNameIndex]) \<noteq> None
      \<and> snd (snd (CreateIndexes exampleWorld exampleRestore [] ''shop'' ''orders''
                 [exampleIndex, longNameIndex])) = []"
    by (rule T1 [THEN conjunct1, THEN mp, OF long])
  from T2 [THEN conjunct2, THEN conjunct1, THEN mp, OF hyp2, THEN conjunct1]
  obtain k new where B0: "k \<le> length [exampleIndex]
     \<and> snd (snd (CreateIndexes exampleWorld exampleRestore [] ''shop'' ''orders'' [exampleIndex])) = [] @ new
     \<and> withoutLogs new =
       OpRunCommand ''shop'' (createIndexesCommand exampleRestore ''shop'' ''orders'' [exampleIndex])
       # map (OpInsertOne ''shop'' ''system.indexes'')
           (take k (map (sanitized exampleRestore ''shop'' ''orders'') [exampleIndex]))
     \<and> (Err (runCommand exampleWorld (createIndexesLogged exampleWorld [] [exampleIndex]) ''shop''
            (createIndexesCommand exampleRestore ''shop'' ''orders'' [exampleIndex]))
       \<noteq> Some ''no such cmd: createIndexes'' \<longrightarrow> k = 0)
     \<and> (Err (runCommand exampleWorld (createIndexesLogged exampleWorld [] [exampleIndex]) ''shop''
            (createIndexesCommand exampleRestore ''shop'' ''orders'' [exampleIndex])) = None
       \<longrightarrow> fst (CreateIndexes exampleWorld exampleRestore [] ''shop'' ''orders'' [exampleIndex]) = None)
     \<and> (Err (runCommand exampleWorld (createIndexesLogged exampleWorld [] [exampleIndex]) ''shop''
            (createIndexesCommand exampleRestore ''shop'' ''orders'' [exampleIndex]))
          = Some ''no such cmd: createIndexes''
       \<and> fst (CreateIndexes exampleWorld exampleRestore [] ''shop'' ''orders'' [exampleIndex]) = None
       \<longrightarrow> k = length [exampleIndex])"
    by (elim exE)
  from B0 have B: "fst (CreateIndexes exampleWorld exampleRestore [] ''shop'' ''orders'' [exampleIndex]) = None
     \<and> withoutLogs (snd (snd (CreateIndexes exampleWorld exampleRestore [] ''shop'' ''orders''
                              [exampleIndex])))
       = [OpRunCommand ''shop''
            [(''createIndexes'', V (BString ''orders'')),
             (''indexes'', VIndexes [sanitized exampleRestore ''shop'' ''orders'' exampleIndex])]]"
    by (simp add: ok cmd)
  from T3 [THEN conjunct2, THEN conjunct1, THEN mp, OF hyp3, THEN conjunct1]
  obtain k' new' where C0: "k' \<le> length [exampleIndex]
     \<and> snd (snd (CreateIndexes legacyWorld exampleRestore [] ''shop'' ''orders'' [exampleIndex])) = [] @ new'
     \<and> withoutLogs new' =
       OpRunCommand ''shop'' (createIndexesCommand exampleRestore ''shop'' ''orders'' [exampleIndex])
       # map (OpInsertOne ''shop'' ''system.indexes'')
           (take k' (map (sanitized exampleRestore ''shop'' ''orders'') [exampleIndex]))
     \<and> (Err (runCommand legacyWorld (createIndexesLogged legacyWorld [] [exampleIndex]) ''shop''
            (createIndexesCommand exampleRestore ''shop'' ''orders'' [exampleIndex]))
       \<noteq> Some ''no such cmd: createIndexes'' \<longrightarrow> k' = 0)
     \<and> (Err (runCommand legacyWorld (createIndexesLogged legacyWorld [] [exampleIndex]) ''shop''
            (createIndexesCommand exampleRestore ''shop'' ''orders'' [exampleIndex])) = None
       \<longrightarrow> fst (CreateIndexes legacyWorld exampleRestore [] ''shop'' ''orders'' [exampleIndex]) = None)
     \<and> (Err (runCommand legacyWorld (createIndexesLogged legacyWorld [] [exampleIndex]) ''shop''
            (createIndexesCommand exampleRestore ''shop'' ''orders'' [exampleIndex]))
          = Some ''no such cmd: createIndexes''
       \<and> fst (CreateIndexes legacyWorld exampleRestore [] ''shop'' ''orders'' [exampleIndex]) = None
       \<longrightarrow> k' = length [exampleIndex])"
    by (elim exE)
  have C1: "fst (CreateIndexes legacyWorld exampleRestore [] ''shop'' ''orders'' [exampleIndex]) = None"
    by (rule T3 [THEN conjunct2, THEN conjunct1, THEN mp, OF hyp3, THEN conjunct2, THEN mp])
       (simp add: nosuch ins)
  from C0 C1 have C: "withoutLogs (snd (snd (CreateIndexes legacyWorld exampleRestore [] ''shop'' ''orders''
                              [exampleIndex])))
       = [OpRunCommand ''shop''
            [(''createIndexes'', V (BString ''orders'')),
             (''indexes'', VIndexes [sanitized exampleRestore ''shop'' ''orders'' exampleIndex])],
          OpInsertOne ''shop'' ''system.indexes'' (sanitized exampleRestore ''shop'' ''orders'' exampleIndex)]"
    by (simp add: nosuch cmd)
  from A B C C1 show ?thesis by simp
qed

subsection \<open>The index version\<close>



end
